theory Spec2Isabelle
  imports Complex_Main "HOL-Library.Word" "HOL-Library.Sublist"
begin

section \<open>The Gotenberg converter client (powerrag/app/gotenberg_converter.py)\<close>

text \<open>
  The module holds a configuration helper and two converter functions. Each converter
  reports progress to an optional callback, prepares one multipart file part (from the
  bytes given, or from a file it opens), posts it to the Gotenberg service, and maps the
  response status to a returned pair or to a raised exception.

  The embedding threads an event trace through the code: every call of the callback,
  of \<open>open\<close>, of \<open>close\<close>, of \<open>requests.post\<close> and of the logger is an event,
  in program order. What the outside world answers (the configuration, whether a file
  opens, what the service replies) is a parameter of the model, the record \<open>world\<close>.
  A raised exception is the \<open>Inl\<close> of a sum.

  The callback is any callable: a call of it is recorded, and then it returns or raises.
  The calls of the callback, of \<open>open\<close> and of \<open>requests.post\<close> either return
  or raise a subclass of \<open>Exception\<close>, which is what the handlers of the module
  catch. The paths are POSIX paths, \<open>binary\<close> is of type bytes and \<open>trace_id\<close> of
  type str, as annotated.
\<close>

subsection \<open>Values\<close>

type_synonym bytes = "8 word list"

text \<open>
  Python exception classes. The handlers of the converters tell
  \<open>requests.exceptions.RequestException\<close> and its subclasses from every other
  \<open>Exception\<close>. An exception value carries its class and the text \<open>str(e)\<close>.
\<close>

datatype exc_class = Exception | OSError | ValueError | RequestException | ConnectionError | Timeout

fun is_RequestException :: "exc_class \<Rightarrow> bool" where
  "is_RequestException RequestException = True"
| "is_RequestException ConnectionError = True"
| "is_RequestException Timeout = True"
| "is_RequestException _ = False"

datatype exn = Raise (exc_class: exc_class) (exc_str: string)

text \<open>
  The callable handed in as \<open>callback\<close>: what a call of it with a progress value
  and a message does, \<open>None\<close> when it returns and \<open>Some e\<close> when it raises
  \<open>e\<close>.
\<close>

type_synonym callable = "rat \<Rightarrow> string \<Rightarrow> exn option"

text \<open>
  A file object of a multipart part: an in-memory \<open>io.BytesIO\<close>, or the handle
  that \<open>open(path, 'rb')\<close> returned.
\<close>

datatype fileobj = BytesIO bytes | FileHandle string

record request =
  req_url :: string
  req_files :: "(string \<times> string \<times> fileobj) list"
  req_headers :: "(string \<times> string) list"
  req_timeout :: int

record response =
  status_code :: int
  content :: bytes
  resp_text :: string

text \<open>
  The events of a run. A callback call carries the progress value and the message; the
  progress values are the literals of the source (\<open>0.15\<close>, \<open>0.2\<close>, \<open>-1\<close>),
  kept as rationals, since the code passes them on and never computes with them.
\<close>

datatype event =
    Callback rat string
  | Open string
  | Close fileobj
  | Post request
  | LogInfo string
  | LogError string

text \<open>
  The environment. \<open>get_base_config\<close> is imported from \<open>api.utils.configs\<close>,
  which is not among the sources: it is a parameter here, a function of the key and of
  the default handed in. What it returns is \<open>None\<close> or a dictionary of strings,
  kept as an association list whose first binding of a key counts.
  \<open>open_error\<close> says whether opening a path for reading raises, and
  \<open>post_result\<close> what \<open>requests.post\<close> does with a request: it raises or it
  returns a response.
\<close>

type_synonym config_dict = "(string \<times> string) list"

record world =
  get_base_config :: "string \<Rightarrow> config_dict option \<Rightarrow> config_dict option"
  open_error :: "string \<Rightarrow> exn option"
  post_result :: "request \<Rightarrow> exn + response"

subsection \<open>Python primitives the module uses\<close>

text \<open>
  Truthiness of an \<open>Optional[bytes]\<close> or \<open>Optional[str]\<close> in \<open>if x:\<close>:
  \<open>None\<close> and the empty value are falsy. The result is the value when it is truthy.
\<close>

definition truthy :: "'a list option \<Rightarrow> 'a list option" where
  "truthy x = (case x of None \<Rightarrow> None | Some v \<Rightarrow> if v = [] then None else Some v)"

text \<open>\<open>str.rfind\<close> of one character: the last index where it occurs, or \<open>-1\<close>.\<close>

fun rfind :: "char \<Rightarrow> string \<Rightarrow> int" where
  "rfind c [] = - 1"
| "rfind c (x # xs) =
     (let r = rfind c xs in if 0 \<le> r then r + 1 else if x = c then 0 else - 1)"

text \<open>\<open>os.path.basename\<close> (posixpath): what follows the last slash.\<close>

definition basename :: "string \<Rightarrow> string" where
  "basename p = (let i = rfind CHR ''/'' p + 1 in drop (nat i) p)"

text \<open>
  \<open>os.path.splitext\<close> (posixpath, through \<open>genericpath._splitext\<close>): the
  extension starts at the last dot, when that dot comes after the last slash and some
  character between the slash and the dot is not a dot. \<open>skip_dots\<close> is the
  \<open>while filenameIndex < dotIndex\<close> loop.
\<close>

function skip_dots :: "string \<Rightarrow> nat \<Rightarrow> nat \<Rightarrow> string \<times> string" where
  "skip_dots p dotIndex filenameIndex =
     (if filenameIndex < dotIndex then
        (if take 1 (drop filenameIndex p) \<noteq> ''.'' then (take dotIndex p, drop dotIndex p)
         else skip_dots p dotIndex (filenameIndex + 1))
      else (p, []))"
  by pat_completeness auto
termination
  by (relation "measure (\<lambda>(p, dotIndex, filenameIndex). dotIndex - filenameIndex)") auto

declare skip_dots.simps [simp del]

definition splitext :: "string \<Rightarrow> string \<times> string" where
  "splitext p =
     (let sepIndex = rfind CHR ''/'' p;
          dotIndex = rfind CHR ''.'' p
      in if sepIndex < dotIndex then skip_dots p (nat dotIndex) (nat (sepIndex + 1))
         else (p, []))"

text \<open>\<open>str\<close> of an integer, as the f-strings format a status code and a length.\<close>

fun str_nat :: "nat \<Rightarrow> string" where
  "str_nat n =
     (if n < 10 then [char_of (48 + n)] else str_nat (n div 10) @ [char_of (48 + n mod 10)])"

declare str_nat.simps [simp del]

definition str_int :: "int \<Rightarrow> string" where
  "str_int i = (if i < 0 then CHR ''-'' # str_nat (nat (- i)) else str_nat (nat i))"

text \<open>\<open>open(filename, 'rb')\<close>: raises, or returns the handle of the file.\<close>

definition open_rb :: "world \<Rightarrow> string \<Rightarrow> exn + fileobj" where
  "open_rb w filename =
     (case open_error w filename of Some e \<Rightarrow> Inl e | None \<Rightarrow> Inr (FileHandle filename))"

text \<open>
  The statement \<open>if callback: callback(progress, message)\<close>, which the module writes
  at four places in each converter: the call is an event, and what it raises, if it
  raises, is the second component.
\<close>

definition notify :: "callable option \<Rightarrow> rat \<Rightarrow> string \<Rightarrow> event list \<times> exn option" where
  "notify callback progress message =
     (case callback of
        None \<Rightarrow> ([], None)
      | Some cb \<Rightarrow> ([Callback progress message], cb progress message))"

subsection \<open>Configuration\<close>

text \<open>
  \<open>_get_gotenberg_url\<close>: \<open>get_base_config("gotenberg", {}) or {}\<close>, then
  \<open>.get("url", "http://localhost:3000")\<close>.
\<close>

definition get_gotenberg_url :: "world \<Rightarrow> string" where
  "get_gotenberg_url w =
     (let gotenberg_config =
            (case get_base_config w ''gotenberg'' (Some []) of
               None \<Rightarrow> []
             | Some d \<Rightarrow> if d = [] then [] else d)
      in case map_of gotenberg_config ''url'' of
           Some u \<Rightarrow> u
         | None \<Rightarrow> ''http://localhost:3000'')"

subsection \<open>convert_office_to_pdf\<close>

text \<open>
  The status dispatch of the \<open>try\<close> block (source lines 94 to 114): the events it
  causes, and the pair it returns or the exception it raises. On status 200 the callback
  is called before the \<open>return\<close>; when it raises, its exception leaves the block.
\<close>

definition office_respond ::
  "string \<Rightarrow> callable option \<Rightarrow> response \<Rightarrow> event list \<times> (exn + bytes \<times> string)" where
  "office_respond filename callback response =
     (if status_code response = 200 then
        (let pdf_binary = content response;
             pdf_filename = fst (splitext filename) @ ''.pdf'';
             logged = [LogInfo (''Successfully converted '' @ filename @ '' to PDF (''
                                @ str_nat (length pdf_binary) @ '' bytes)'')];
             (called, raised) =
               notify callback (2 / 10) ''Office document converted to PDF successfully''
         in (logged @ called,
             case raised of
               Some e \<Rightarrow> Inl e
             | None \<Rightarrow> Inr (pdf_binary, pdf_filename)))
      else if status_code response = 400 then
        (let error_msg = ''Gotenberg conversion failed: Bad Request - '' @ resp_text response
         in ([LogError error_msg], Inl (Raise Exception error_msg)))
      else if status_code response = 503 then
        (let error_msg =
               ''Gotenberg conversion failed: Service Unavailable - '' @ resp_text response
         in ([LogError error_msg], Inl (Raise Exception error_msg)))
      else
        (let error_msg = ''Gotenberg conversion failed with status ''
                         @ str_int (status_code response) @ '': '' @ resp_text response
         in ([LogError error_msg], Inl (Raise Exception error_msg))))"

text \<open>
  The \<open>try\<close> block from the headers on (source lines 81 to 114), entered with the
  variable \<open>file_handle\<close> and the dictionary \<open>files\<close> as prepared. The middle
  component of the result is \<open>file_handle\<close> as the block leaves it.
\<close>

definition office_send ::
  "world \<Rightarrow> string \<Rightarrow> callable option \<Rightarrow> string option \<Rightarrow> int \<Rightarrow> string \<Rightarrow>
   fileobj option \<Rightarrow> (string \<times> string \<times> fileobj) list \<Rightarrow>
   event list \<times> fileobj option \<times> (exn + bytes \<times> string)" where
  "office_send w filename callback trace_id timeout url file_handle files =
     (let headers = (case truthy trace_id of
                       Some t \<Rightarrow> [(''Gotenberg-Trace'', t)]
                     | None \<Rightarrow> []);
          req = \<lparr>req_url = url, req_files = files, req_headers = headers,
                 req_timeout = timeout\<rparr>;
          sent = [LogInfo (''Converting Office document to PDF via Gotenberg: '' @ filename),
                  Post req]
      in case post_result w req of
           Inl e \<Rightarrow> (sent, file_handle, Inl e)
         | Inr response \<Rightarrow>
             (let closed = (case file_handle of Some h \<Rightarrow> [Close h] | None \<Rightarrow> []);
                  (evs, r) = office_respond filename callback response
              in (sent @ closed @ evs, None, r)))"

text \<open>The whole \<open>try\<close> block (source lines 70 to 114).\<close>

definition office_try ::
  "world \<Rightarrow> string \<Rightarrow> bytes option \<Rightarrow> callable option \<Rightarrow> string option \<Rightarrow> int \<Rightarrow>
   event list \<times> fileobj option \<times> (exn + bytes \<times> string)" where
  "office_try w filename binary callback trace_id timeout =
     (let gotenberg_url = get_gotenberg_url w;
          url = gotenberg_url @ ''/forms/libreoffice/convert''
      in case truthy binary of
           Some b \<Rightarrow>
             office_send w filename callback trace_id timeout url None
               [(''files'', basename filename, BytesIO b)]
         | None \<Rightarrow>
             (case open_rb w filename of
                Inl e \<Rightarrow> ([Open filename], None, Inl e)
              | Inr file_handle \<Rightarrow>
                  (let (evs, fh, r) =
                         office_send w filename callback trace_id timeout url (Some file_handle)
                           [(''files'', basename filename, file_handle)]
                   in (Open filename # evs, fh, r))))"

text \<open>
  The two \<open>except\<close> clauses (source lines 116 to 131): the first takes a
  \<open>RequestException\<close>, the second every other \<open>Exception\<close>. Each closes the
  file handle when the variable still holds one, logs, calls the callback, and raises a
  plain \<open>Exception\<close> with the message. When the callback raises, its exception
  leaves the function instead.
\<close>

definition office_except :: "callable option \<Rightarrow> fileobj option \<Rightarrow> exn \<Rightarrow> event list \<times> exn" where
  "office_except callback file_handle e =
     (if is_RequestException (exc_class e) then
        (let closed = (case file_handle of Some h \<Rightarrow> [Close h] | None \<Rightarrow> []);
             error_msg = ''Failed to convert Office document to PDF (network error): '' @ exc_str e;
             (called, raised) = notify callback (- 1) error_msg
         in (closed @ [LogError error_msg] @ called,
             case raised of
               Some thrown \<Rightarrow> thrown
             | None \<Rightarrow> Raise Exception error_msg))
      else
        (let closed = (case file_handle of Some h \<Rightarrow> [Close h] | None \<Rightarrow> []);
             error_msg = ''Failed to convert Office document to PDF: '' @ exc_str e;
             (called, raised) = notify callback (- 1) error_msg
         in (closed @ [LogError error_msg] @ called,
             case raised of
               Some thrown \<Rightarrow> thrown
             | None \<Rightarrow> Raise Exception error_msg)))"

text \<open>
  The function: the first callback call (source lines 65 to 66), which is outside the
  \<open>try\<close> statement, so that an exception of it leaves the function at once; then the
  \<open>try\<close> block, and the handlers when the block raises.
\<close>

definition convert_office_to_pdf ::
  "world \<Rightarrow> string \<Rightarrow> bytes option \<Rightarrow> callable option \<Rightarrow> string option \<Rightarrow> int \<Rightarrow>
   event list \<times> (exn + bytes \<times> string)" where
  "convert_office_to_pdf w filename binary callback trace_id timeout =
     (let (started, raised) = notify callback (15 / 100) ''Converting Office document to PDF...''
      in case raised of
           Some e \<Rightarrow> (started, Inl e)
         | None \<Rightarrow>
             (let (evs, file_handle, r) =
                    office_try w filename binary callback trace_id timeout
              in case r of
                   Inr v \<Rightarrow> (started @ evs, Inr v)
                 | Inl e \<Rightarrow>
                     (let (handled, thrown) = office_except callback file_handle e
                      in (started @ evs @ handled, Inl thrown))))"

text \<open>
  The request that the \<open>try\<close> block hands to \<open>requests.post\<close> (source lines 71 to
  86), written out once for the statements below; \<open>office_posts\<close> proves that it is the
  request of every run that reaches the call.
\<close>

definition office_request :: "world \<Rightarrow> string \<Rightarrow> bytes option \<Rightarrow> string option \<Rightarrow> int \<Rightarrow> request" where
  "office_request w filename binary trace_id timeout =
     \<lparr>req_url = get_gotenberg_url w @ ''/forms/libreoffice/convert'',
      req_files = [(''files'', basename filename,
                    case truthy binary of
                      Some b \<Rightarrow> BytesIO b
                    | None \<Rightarrow> FileHandle filename)],
      req_headers = (case truthy trace_id of
                       Some t \<Rightarrow> [(''Gotenberg-Trace'', t)]
                     | None \<Rightarrow> []),
      req_timeout = timeout\<rparr>"

subsection \<open>convert_html_to_pdf\<close>

text \<open>
  The status dispatch of the \<open>try\<close> block (source lines 191 to 211): the events it
  causes, and the pair it returns or the exception it raises. On status 200 the callback
  is called before the \<open>return\<close>; when it raises, its exception leaves the block.
\<close>

definition html_respond ::
  "string \<Rightarrow> callable option \<Rightarrow> response \<Rightarrow> event list \<times> (exn + bytes \<times> string)" where
  "html_respond filename callback response =
     (if status_code response = 200 then
        (let pdf_binary = content response;
             pdf_filename = fst (splitext filename) @ ''.pdf'';
             logged = [LogInfo (''Successfully converted '' @ filename @ '' to PDF (''
                                @ str_nat (length pdf_binary) @ '' bytes)'')];
             (called, raised) =
               notify callback (2 / 10) ''HTML document converted to PDF successfully''
         in (logged @ called,
             case raised of
               Some e \<Rightarrow> Inl e
             | None \<Rightarrow> Inr (pdf_binary, pdf_filename)))
      else if status_code response = 400 then
        (let error_msg = ''Gotenberg conversion failed: Bad Request - '' @ resp_text response
         in ([LogError error_msg], Inl (Raise Exception error_msg)))
      else if status_code response = 503 then
        (let error_msg =
               ''Gotenberg conversion failed: Service Unavailable - '' @ resp_text response
         in ([LogError error_msg], Inl (Raise Exception error_msg)))
      else
        (let error_msg = ''Gotenberg conversion failed with status ''
                         @ str_int (status_code response) @ '': '' @ resp_text response
         in ([LogError error_msg], Inl (Raise Exception error_msg))))"

text \<open>
  The \<open>try\<close> block from the headers on (source lines 178 to 211), entered with the
  variable \<open>file_handle\<close> and the dictionary \<open>files\<close> as prepared. The middle
  component of the result is \<open>file_handle\<close> as the block leaves it.
\<close>

definition html_send ::
  "world \<Rightarrow> string \<Rightarrow> callable option \<Rightarrow> string option \<Rightarrow> int \<Rightarrow> string \<Rightarrow>
   fileobj option \<Rightarrow> (string \<times> string \<times> fileobj) list \<Rightarrow>
   event list \<times> fileobj option \<times> (exn + bytes \<times> string)" where
  "html_send w filename callback trace_id timeout url file_handle files =
     (let headers = (case truthy trace_id of
                       Some t \<Rightarrow> [(''Gotenberg-Trace'', t)]
                     | None \<Rightarrow> []);
          req = \<lparr>req_url = url, req_files = files, req_headers = headers,
                 req_timeout = timeout\<rparr>;
          sent = [LogInfo (''Converting HTML document to PDF via Gotenberg: '' @ filename),
                  Post req]
      in case post_result w req of
           Inl e \<Rightarrow> (sent, file_handle, Inl e)
         | Inr response \<Rightarrow>
             (let closed = (case file_handle of Some h \<Rightarrow> [Close h] | None \<Rightarrow> []);
                  (evs, r) = html_respond filename callback response
              in (sent @ closed @ evs, None, r)))"

text \<open>The whole \<open>try\<close> block (source lines 166 to 211). The part is named
  \<open>index.html\<close> whatever the input filename is; \<open>binary\<close> is typed as bytes, so
  \<open>html_content\<close> is \<open>binary\<close> itself.\<close>

definition html_try ::
  "world \<Rightarrow> string \<Rightarrow> bytes option \<Rightarrow> callable option \<Rightarrow> string option \<Rightarrow> int \<Rightarrow>
   event list \<times> fileobj option \<times> (exn + bytes \<times> string)" where
  "html_try w filename binary callback trace_id timeout =
     (let gotenberg_url = get_gotenberg_url w;
          url = gotenberg_url @ ''/forms/chromium/convert/html''
      in case truthy binary of
           Some b \<Rightarrow>
             (let html_content = b
              in html_send w filename callback trace_id timeout url None
                   [(''files'', ''index.html'', BytesIO html_content)])
         | None \<Rightarrow>
             (case open_rb w filename of
                Inl e \<Rightarrow> ([Open filename], None, Inl e)
              | Inr file_handle \<Rightarrow>
                  (let (evs, fh, r) =
                         html_send w filename callback trace_id timeout url (Some file_handle)
                           [(''files'', ''index.html'', file_handle)]
                   in (Open filename # evs, fh, r))))"

text \<open>
  The two \<open>except\<close> clauses (source lines 213 to 228): the first takes a
  \<open>RequestException\<close>, the second every other \<open>Exception\<close>. Each closes the
  file handle when the variable still holds one, logs, calls the callback, and raises a
  plain \<open>Exception\<close> with the message. When the callback raises, its exception
  leaves the function instead.
\<close>

definition html_except :: "callable option \<Rightarrow> fileobj option \<Rightarrow> exn \<Rightarrow> event list \<times> exn" where
  "html_except callback file_handle e =
     (if is_RequestException (exc_class e) then
        (let closed = (case file_handle of Some h \<Rightarrow> [Close h] | None \<Rightarrow> []);
             error_msg = ''Failed to convert HTML document to PDF (network error): '' @ exc_str e;
             (called, raised) = notify callback (- 1) error_msg
         in (closed @ [LogError error_msg] @ called,
             case raised of
               Some thrown \<Rightarrow> thrown
             | None \<Rightarrow> Raise Exception error_msg))
      else
        (let closed = (case file_handle of Some h \<Rightarrow> [Close h] | None \<Rightarrow> []);
             error_msg = ''Failed to convert HTML document to PDF: '' @ exc_str e;
             (called, raised) = notify callback (- 1) error_msg
         in (closed @ [LogError error_msg] @ called,
             case raised of
               Some thrown \<Rightarrow> thrown
             | None \<Rightarrow> Raise Exception error_msg)))"

text \<open>
  The function: the first callback call (source lines 161 to 162), which is outside the
  \<open>try\<close> statement, so that an exception of it leaves the function at once; then the
  \<open>try\<close> block, and the handlers when the block raises.
\<close>

definition convert_html_to_pdf ::
  "world \<Rightarrow> string \<Rightarrow> bytes option \<Rightarrow> callable option \<Rightarrow> string option \<Rightarrow> int \<Rightarrow>
   event list \<times> (exn + bytes \<times> string)" where
  "convert_html_to_pdf w filename binary callback trace_id timeout =
     (let (started, raised) = notify callback (15 / 100) ''Converting HTML document to PDF...''
      in case raised of
           Some e \<Rightarrow> (started, Inl e)
         | None \<Rightarrow>
             (let (evs, file_handle, r) =
                    html_try w filename binary callback trace_id timeout
              in case r of
                   Inr v \<Rightarrow> (started @ evs, Inr v)
                 | Inl e \<Rightarrow>
                     (let (handled, thrown) = html_except callback file_handle e
                      in (started @ evs @ handled, Inl thrown))))"

text \<open>
  The request that the \<open>try\<close> block hands to \<open>requests.post\<close> (source lines 167 to
  183), written out once for the statements below; \<open>html_posts\<close> proves that it is the
  request of every run that reaches the call.
\<close>

definition html_request :: "world \<Rightarrow> string \<Rightarrow> bytes option \<Rightarrow> string option \<Rightarrow> int \<Rightarrow> request" where
  "html_request w filename binary trace_id timeout =
     \<lparr>req_url = get_gotenberg_url w @ ''/forms/chromium/convert/html'',
      req_files = [(''files'', ''index.html'',
                    case truthy binary of
                      Some b \<Rightarrow> BytesIO b
                    | None \<Rightarrow> FileHandle filename)],
      req_headers = (case truthy trace_id of
                       Some t \<Rightarrow> [(''Gotenberg-Trace'', t)]
                     | None \<Rightarrow> []),
      req_timeout = timeout\<rparr>"

subsection \<open>Reading a trace\<close>

text \<open>
  The requests posted, the callback calls (progress and message) and the file
  operations of a trace, each in program order.
\<close>

fun post_of :: "event \<Rightarrow> request list" where
  "post_of (Post r) = [r]"
| "post_of _ = []"

fun callback_of :: "event \<Rightarrow> (rat \<times> string) list" where
  "callback_of (Callback p m) = [(p, m)]"
| "callback_of _ = []"

fun file_op_of :: "event \<Rightarrow> event list" where
  "file_op_of (Open p) = [Open p]"
| "file_op_of (Close h) = [Close h]"
| "file_op_of _ = []"

definition posts :: "event list \<Rightarrow> request list" where
  "posts evs = concat (map post_of evs)"

definition callbacks :: "event list \<Rightarrow> (rat \<times> string) list" where
  "callbacks evs = concat (map callback_of evs)"

definition file_ops :: "event list \<Rightarrow> event list" where
  "file_ops evs = concat (map file_op_of evs)"

text \<open>The value of the \<open>Gotenberg-Trace\<close> header of a request, when it carries one.\<close>

definition trace_header :: "request \<Rightarrow> string option" where
  "trace_header req = map_of (req_headers req) ''Gotenberg-Trace''"


text \<open>
  Whether the file part can be prepared (source lines 74 to 78, 170 to 175): the bytes are
  given and not empty, or the file opens.
\<close>

definition part_in_hand :: "world \<Rightarrow> string \<Rightarrow> bytes option \<Rightarrow> bool" where
  "part_in_hand w filename binary =
     (case truthy binary of
        Some b \<Rightarrow> True
      | None \<Rightarrow> open_error w filename = None)"

subsection \<open>Sample environments\<close>

text \<open>
  Environments for concrete runs: a service that answers 200 with a PDF body under the
  default configuration; one that answers 400 under a configured URL; one that answers
  503; one that answers 500; and one whose request times out. Then three callbacks: one
  that always returns, one that raises when told of success, one that raises when told
  of failure.
\<close>

definition world_ok :: world where
  "world_ok =
     \<lparr>get_base_config = (\<lambda>key dflt. dflt),
      open_error = (\<lambda>path. None),
      post_result = (\<lambda>req. Inr \<lparr>status_code = 200, content = [37, 80, 68, 70],
                                  resp_text = ''%PDF''\<rparr>)\<rparr>"

definition world_bad_request :: world where
  "world_bad_request =
     \<lparr>get_base_config = (\<lambda>key dflt. Some [(''url'', ''http://gotenberg:3000'')]),
      open_error = (\<lambda>path. None),
      post_result = (\<lambda>req. Inr \<lparr>status_code = 400, content = [],
                                  resp_text = ''unsupported format''\<rparr>)\<rparr>"

definition world_server_error :: world where
  "world_server_error =
     \<lparr>get_base_config = (\<lambda>key dflt. dflt),
      open_error = (\<lambda>path. None),
      post_result = (\<lambda>req. Inr \<lparr>status_code = 500, content = [],
                                  resp_text = ''internal error''\<rparr>)\<rparr>"

definition world_timeout :: world where
  "world_timeout =
     \<lparr>get_base_config = (\<lambda>key dflt. None),
      open_error = (\<lambda>path. None),
      post_result = (\<lambda>req. Inl (Raise Timeout ''read timed out''))\<rparr>"


definition quiet_callback :: callable where
  "quiet_callback = (\<lambda>progress message. None)"

definition raising_on_success :: callable where
  "raising_on_success =
     (\<lambda>progress message. if progress = 2 / 10 then Some (Raise ValueError ''boom'') else None)"

definition raising_on_failure :: callable where
  "raising_on_failure =
     (\<lambda>progress message. if progress = - 1 then Some (Raise ValueError ''boom'') else None)"

section \<open>Facts about traces, paths and the blocks of the converters\<close>

subsection \<open>Traces\<close>

lemma posts_simps [simp]:
  "posts [] = []"
  "posts (e # evs) = post_of e @ posts evs"
  "posts (xs @ ys) = posts xs @ posts ys"
  by (simp_all add: posts_def)

lemma callbacks_simps [simp]:
  "callbacks [] = []"
  "callbacks (e # evs) = callback_of e @ callbacks evs"
  "callbacks (xs @ ys) = callbacks xs @ callbacks ys"
  by (simp_all add: callbacks_def)

lemma file_ops_simps [simp]:
  "file_ops [] = []"
  "file_ops (e # evs) = file_op_of e @ file_ops evs"
  "file_ops (xs @ ys) = file_ops xs @ file_ops ys"
  by (simp_all add: file_ops_def)

lemma notify_posts [simp]: "posts (fst (notify callback progress message)) = []"
  by (simp add: notify_def split: option.split)

lemma notify_file_ops [simp]: "file_ops (fst (notify callback progress message)) = []"
  by (simp add: notify_def split: option.split)

lemma notify_callbacks:
  "callbacks (fst (notify callback progress message)) =
     (case callback of None \<Rightarrow> [] | Some cb \<Rightarrow> [(progress, message)])"
  by (simp add: notify_def split: option.split)

lemma notify_None [simp]: "notify None progress message = ([], None)"
  by (simp add: notify_def)

lemma notify_Some: "snd (notify (Some cb) progress message) = cb progress message"
  by (simp add: notify_def)

lemma closing_posts [simp]:
  "posts (case file_handle of Some h \<Rightarrow> [Close h] | None \<Rightarrow> []) = []"
  by (simp split: option.split)

lemma closing_callbacks [simp]:
  "callbacks (case file_handle of Some h \<Rightarrow> [Close h] | None \<Rightarrow> []) = []"
  by (simp split: option.split)

lemma closing_file_ops [simp]:
  "file_ops (case file_handle of Some h \<Rightarrow> [Close h] | None \<Rightarrow> []) =
     (case file_handle of Some h \<Rightarrow> [Close h] | None \<Rightarrow> [])"
  by (simp split: option.split)

subsection \<open>Paths\<close>

lemma rfind_bounds: "- 1 \<le> rfind c p \<and> rfind c p < int (length p)"
  by (induction p) (auto simp: Let_def)

lemma rfind_none_after: "c \<notin> set (drop (nat (rfind c p + 1)) p)"
proof (induction p)
  case Nil
  then show ?case by simp
next
  case (Cons x xs)
  show ?case
  proof (cases "0 \<le> rfind c xs")
    case True
    then have "nat (rfind c xs + 1 + 1) = Suc (nat (rfind c xs + 1))" by simp
    with True Cons show ?thesis by (simp add: Let_def)
  next
    case False
    then have neg: "rfind c xs = - 1" using rfind_bounds [of c xs] by simp
    with Cons have "c \<notin> set xs" by simp
    with neg show ?thesis by (simp add: Let_def)
  qed
qed

lemma rfind_hit: "0 \<le> rfind c p \<Longrightarrow> \<exists>rest. drop (nat (rfind c p)) p = c # rest"
proof (induction p)
  case Nil
  then show ?case by simp
next
  case (Cons x xs)
  show ?case
  proof (cases "0 \<le> rfind c xs")
    case True
    then have "nat (rfind c xs + 1) = Suc (nat (rfind c xs))" by simp
    with True Cons show ?thesis by (simp add: Let_def)
  next
    case False
    with Cons.prems have "x = c" by (simp add: Let_def split: if_splits)
    with False show ?thesis by (simp add: Let_def)
  qed
qed

lemma skip_dots_cases:
  "skip_dots p dotIndex i = (p, []) \<or> skip_dots p dotIndex i = (take dotIndex p, drop dotIndex p)"
proof (induction p dotIndex i rule: skip_dots.induct)
  case (1 p dotIndex filenameIndex)
  show ?case
  proof (cases "filenameIndex < dotIndex")
    case True
    show ?thesis
    proof (cases "take 1 (drop filenameIndex p) \<noteq> ''.''")
      case True
      with \<open>filenameIndex < dotIndex\<close> show ?thesis by (subst (2) skip_dots.simps) simp
    next
      case False
      with \<open>filenameIndex < dotIndex\<close> 1 show ?thesis
        by (subst skip_dots.simps, subst (2) skip_dots.simps) simp
    qed
  next
    case False
    then show ?thesis by (subst skip_dots.simps) simp
  qed
qed

lemma splitext_cases:
  "splitext p = (p, []) \<or>
   (rfind CHR ''/'' p < rfind CHR ''.'' p \<and>
    splitext p = (take (nat (rfind CHR ''.'' p)) p, drop (nat (rfind CHR ''.'' p)) p))"
  using skip_dots_cases [of p "nat (rfind CHR ''.'' p)" "nat (rfind CHR ''/'' p + 1)"]
  by (auto simp: splitext_def Let_def)

lemma splitext_concat: "fst (splitext p) @ snd (splitext p) = p"
  using splitext_cases [of p] by auto

text \<open>
  The extension that \<open>splitext\<close> cuts off is empty, or it is a dot followed by
  characters that are neither a dot nor a slash.
\<close>

lemma splitext_extension:
  "snd (splitext p) = [] \<or>
   (\<exists>rest. snd (splitext p) = CHR ''.'' # rest \<and> CHR ''.'' \<notin> set rest \<and> CHR ''/'' \<notin> set rest)"
proof -
  let ?d = "rfind CHR ''.'' p" and ?s = "rfind CHR ''/'' p"
  from splitext_cases [of p] show ?thesis
  proof
    assume "splitext p = (p, [])"
    then show ?thesis by simp
  next
    assume a: "?s < ?d \<and> splitext p = (take (nat ?d) p, drop (nat ?d) p)"
    then have d0: "0 \<le> ?d" using rfind_bounds [of "CHR ''/''" p] by simp
    from rfind_hit [OF d0] obtain rest where rest: "drop (nat ?d) p = CHR ''.'' # rest" ..
    have "drop (nat (?d + 1)) p = drop 1 (drop (nat ?d) p)" using d0 by (simp add: nat_add_distrib)
    with rest have r1: "rest = drop (nat (?d + 1)) p" by simp
    then have nodot: "CHR ''.'' \<notin> set rest" using rfind_none_after [of "CHR ''.''" p] by simp
    from a have "?s + 1 \<le> ?d + 1" by simp
    then have "nat (?s + 1) \<le> nat (?d + 1)" by (rule nat_mono)
    then have "set (drop (nat (?d + 1)) p) \<subseteq> set (drop (nat (?s + 1)) p)"
      by (rule set_drop_subset_set_drop)
    with r1 have noslash: "CHR ''/'' \<notin> set rest" using rfind_none_after [of "CHR ''/''" p] by auto
    from a rest nodot noslash show ?thesis by simp
  qed
qed

subsection \<open>Messages\<close>

lemma sublist_of_wrapped: "sublist xs (ps @ qs @ xs)"
  using sublist_append_leftI [of xs "ps @ qs"] by simp



subsection \<open>convert_office_to_pdf, block by block\<close>

lemma office_respond_posts [simp]:
  "posts (fst (office_respond filename callback response)) = []"
  by (simp add: office_respond_def Let_def split_beta)

lemma office_respond_file_ops [simp]:
  "file_ops (fst (office_respond filename callback response)) = []"
  by (simp add: office_respond_def Let_def split_beta)

lemma office_respond_callbacks:
  "callbacks (fst (office_respond filename callback response)) =
     (if status_code response = 200
      then callbacks (fst (notify callback (2 / 10)
                             ''Office document converted to PDF successfully''))
      else [])"
  by (simp add: office_respond_def Let_def split_beta)

lemma office_respond_200:
  "status_code response = 200 \<Longrightarrow>
   snd (office_respond filename callback response) =
     (case snd (notify callback (2 / 10) ''Office document converted to PDF successfully'') of
        Some e \<Rightarrow> Inl e
      | None \<Rightarrow> Inr (content response, fst (splitext filename) @ ''.pdf''))"
  by (simp add: office_respond_def Let_def split_beta)

lemma office_respond_400:
  "status_code response = 400 \<Longrightarrow>
   snd (office_respond filename callback response) =
     Inl (Raise Exception (''Gotenberg conversion failed: Bad Request - '' @ resp_text response))"
  by (simp add: office_respond_def Let_def)

lemma office_respond_503:
  "status_code response = 503 \<Longrightarrow>
   snd (office_respond filename callback response) =
     Inl (Raise Exception
            (''Gotenberg conversion failed: Service Unavailable - '' @ resp_text response))"
  by (simp add: office_respond_def Let_def)

lemma office_respond_other:
  "status_code response \<noteq> 200 \<Longrightarrow> status_code response \<noteq> 400 \<Longrightarrow>
   status_code response \<noteq> 503 \<Longrightarrow>
   snd (office_respond filename callback response) =
     Inl (Raise Exception
            (''Gotenberg conversion failed with status '' @ str_int (status_code response)
             @ '': '' @ resp_text response))"
  by (simp add: office_respond_def Let_def)

lemma office_respond_returns:
  "snd (office_respond filename callback response) = Inr v \<Longrightarrow>
   status_code response = 200
   \<and> snd (notify callback (2 / 10) ''Office document converted to PDF successfully'') = None"
  by (simp add: office_respond_def Let_def split_beta split: if_splits option.splits)

lemma office_respond_failure_starts:
  assumes "status_code response \<noteq> 200"
  shows "\<exists>rest. snd (office_respond filename callback response) =
           Inl (Raise Exception (''Gotenberg conversion failed'' @ rest))"
proof -
  consider "status_code response = 400" | "status_code response = 503"
    | "status_code response \<noteq> 400" "status_code response \<noteq> 503"
    by blast
  then show ?thesis
  proof cases
    case 1
    show ?thesis
      by (rule exI [of _ "'': Bad Request - '' @ resp_text response"])
        (simp add: office_respond_400 [OF 1])
  next
    case 2
    show ?thesis
      by (rule exI [of _ "'': Service Unavailable - '' @ resp_text response"])
        (simp add: office_respond_503 [OF 2])
  next
    case 3
    show ?thesis
      by (rule exI [of _ "'' with status '' @ str_int (status_code response) @ '': ''
                          @ resp_text response"])
        (simp add: office_respond_other [OF assms 3])
  qed
qed

lemma office_except_posts [simp]: "posts (fst (office_except callback file_handle e)) = []"
  by (simp add: office_except_def Let_def split_beta)

lemma office_except_file_ops:
  "file_ops (fst (office_except callback file_handle e)) =
     (case file_handle of Some h \<Rightarrow> [Close h] | None \<Rightarrow> [])"
  by (simp add: office_except_def Let_def split_beta)

lemma office_except_callbacks:
  "callbacks (fst (office_except callback file_handle e)) =
     callbacks (fst (notify callback (- 1)
                       ((if is_RequestException (exc_class e)
                         then ''Failed to convert Office document to PDF (network error): ''
                         else ''Failed to convert Office document to PDF: '') @ exc_str e)))"
  by (simp add: office_except_def Let_def split_beta)

lemma office_except_raised:
  "snd (office_except callback file_handle e) =
     (case snd (notify callback (- 1)
                  ((if is_RequestException (exc_class e)
                    then ''Failed to convert Office document to PDF (network error): ''
                    else ''Failed to convert Office document to PDF: '') @ exc_str e)) of
        Some thrown \<Rightarrow> thrown
      | None \<Rightarrow>
          Raise Exception
            ((if is_RequestException (exc_class e)
              then ''Failed to convert Office document to PDF (network error): ''
              else ''Failed to convert Office document to PDF: '') @ exc_str e))"
  by (cases "is_RequestException (exc_class e)")
    (simp_all add: office_except_def Let_def split_beta split: option.split)

lemma office_except_any_handle:
  "snd (office_except callback file_handle e) = snd (office_except callback None e)"
  "callbacks (fst (office_except callback file_handle e)) =
     callbacks (fst (office_except callback None e))"
  by (simp_all only: office_except_raised office_except_callbacks)

lemma office_send_posts:
  "posts (fst (office_send w filename callback trace_id timeout url file_handle files)) =
     [\<lparr>req_url = url, req_files = files,
       req_headers = (case truthy trace_id of
                        Some t \<Rightarrow> [(''Gotenberg-Trace'', t)]
                      | None \<Rightarrow> []),
       req_timeout = timeout\<rparr>]"
  by (simp add: office_send_def Let_def split_beta split: sum.split)

lemma office_send_result:
  "snd (snd (office_send w filename callback trace_id timeout url file_handle files)) =
     (case post_result w
             \<lparr>req_url = url, req_files = files,
              req_headers = (case truthy trace_id of
                               Some t \<Rightarrow> [(''Gotenberg-Trace'', t)]
                             | None \<Rightarrow> []),
              req_timeout = timeout\<rparr> of
        Inl e \<Rightarrow> Inl e
      | Inr response \<Rightarrow> snd (office_respond filename callback response))"
  by (simp add: office_send_def Let_def split_beta split: sum.split)

lemma office_send_callbacks:
  "callbacks (fst (office_send w filename callback trace_id timeout url file_handle files)) =
     (case post_result w
             \<lparr>req_url = url, req_files = files,
              req_headers = (case truthy trace_id of
                               Some t \<Rightarrow> [(''Gotenberg-Trace'', t)]
                             | None \<Rightarrow> []),
              req_timeout = timeout\<rparr> of
        Inl e \<Rightarrow> []
      | Inr response \<Rightarrow> callbacks (fst (office_respond filename callback response)))"
  by (simp add: office_send_def Let_def split_beta split: sum.split)

lemma office_send_file_ops:
  "file_ops (fst (office_send w filename callback trace_id timeout url file_handle files))
   @ (case fst (snd (office_send w filename callback trace_id timeout url file_handle files)) of
        Some h \<Rightarrow> [Close h] | None \<Rightarrow> []) =
   (case file_handle of Some h \<Rightarrow> [Close h] | None \<Rightarrow> [])"
  by (simp add: office_send_def Let_def split_beta split: sum.split)

lemma office_send_returned:
  "snd (snd (office_send w filename callback trace_id timeout url file_handle files)) = Inr v
   \<Longrightarrow> fst (snd (office_send w filename callback trace_id timeout url file_handle files)) = None"
  by (simp add: office_send_def Let_def split_beta split: sum.splits)

lemma office_try_open_fails:
  "truthy binary = None \<Longrightarrow> open_error w filename = Some e \<Longrightarrow>
   office_try w filename binary callback trace_id timeout = ([Open filename], None, Inl e)"
  by (simp add: office_try_def open_rb_def Let_def)

lemma office_try_posts:
  "posts (fst (office_try w filename binary callback trace_id timeout)) =
     (if part_in_hand w filename binary
      then [office_request w filename binary trace_id timeout] else [])"
  by (auto simp add: office_try_def open_rb_def Let_def split_beta office_send_posts
        part_in_hand_def office_request_def split: option.split)

lemma office_try_result:
  "part_in_hand w filename binary \<Longrightarrow>
   snd (snd (office_try w filename binary callback trace_id timeout)) =
     (case post_result w (office_request w filename binary trace_id timeout) of
        Inl e \<Rightarrow> Inl e
      | Inr response \<Rightarrow> snd (office_respond filename callback response))"
  by (auto simp add: office_try_def open_rb_def Let_def split_beta office_send_result
        part_in_hand_def office_request_def split: option.splits)

lemma office_try_callbacks:
  "part_in_hand w filename binary \<Longrightarrow>
   callbacks (fst (office_try w filename binary callback trace_id timeout)) =
     (case post_result w (office_request w filename binary trace_id timeout) of
        Inl e \<Rightarrow> []
      | Inr response \<Rightarrow> callbacks (fst (office_respond filename callback response)))"
  by (auto simp add: office_try_def open_rb_def Let_def split_beta office_send_callbacks
        part_in_hand_def office_request_def split: option.splits)

lemma office_try_file_ops:
  "file_ops (fst (office_try w filename binary callback trace_id timeout))
   @ (case fst (snd (office_try w filename binary callback trace_id timeout)) of
        Some h \<Rightarrow> [Close h] | None \<Rightarrow> []) =
   (case truthy binary of
      Some b \<Rightarrow> []
    | None \<Rightarrow>
        (case open_error w filename of
           Some e \<Rightarrow> [Open filename]
         | None \<Rightarrow> [Open filename, Close (FileHandle filename)]))"
proof (cases "truthy binary")
  case None
  show ?thesis
  proof (cases "open_error w filename")
    case (Some e)
    with None show ?thesis by (simp add: office_try_open_fails)
  next
    case no_error: None
    with None show ?thesis
      using office_send_file_ops [of w filename callback trace_id timeout
          "get_gotenberg_url w @ ''/forms/libreoffice/convert''" "Some (FileHandle filename)"
          "[(''files'', basename filename, FileHandle filename)]"]
      by (simp add: office_try_def open_rb_def Let_def split_beta)
  qed
next
  case (Some b)
  then show ?thesis
    using office_send_file_ops [of w filename callback trace_id timeout
        "get_gotenberg_url w @ ''/forms/libreoffice/convert''" None
        "[(''files'', basename filename, BytesIO b)]"]
    by (simp add: office_try_def Let_def)
qed

lemma office_try_returned:
  "snd (snd (office_try w filename binary callback trace_id timeout)) = Inr v \<Longrightarrow>
   fst (snd (office_try w filename binary callback trace_id timeout)) = None"
  by (auto simp add: office_try_def open_rb_def Let_def split_beta
        split: option.splits dest: office_send_returned)

subsection \<open>convert_office_to_pdf, the whole function\<close>

lemma office_start_raises:
  "snd (notify callback (15 / 100) ''Converting Office document to PDF...'') = Some e \<Longrightarrow>
   convert_office_to_pdf w filename binary callback trace_id timeout =
     (fst (notify callback (15 / 100) ''Converting Office document to PDF...''), Inl e)"
  by (simp add: convert_office_to_pdf_def split_beta)

lemma office_started:
  assumes "snd (notify callback (15 / 100) ''Converting Office document to PDF...'') = None"
  shows "convert_office_to_pdf w filename binary callback trace_id timeout =
     (case snd (snd (office_try w filename binary callback trace_id timeout)) of
        Inr v \<Rightarrow>
          (fst (notify callback (15 / 100) ''Converting Office document to PDF...'')
           @ fst (office_try w filename binary callback trace_id timeout), Inr v)
      | Inl e \<Rightarrow>
          (fst (notify callback (15 / 100) ''Converting Office document to PDF...'')
           @ fst (office_try w filename binary callback trace_id timeout)
           @ fst (office_except callback
                    (fst (snd (office_try w filename binary callback trace_id timeout))) e),
           Inl (snd (office_except callback
                       (fst (snd (office_try w filename binary callback trace_id timeout))) e))))"
  using assms by (simp add: convert_office_to_pdf_def Let_def split_beta split: sum.split)

lemma office_posts:
  "posts (fst (convert_office_to_pdf w filename binary callback trace_id timeout)) =
     (if snd (notify callback (15 / 100) ''Converting Office document to PDF...'') = None
         \<and> part_in_hand w filename binary
      then [office_request w filename binary trace_id timeout] else [])"
proof (cases "snd (notify callback (15 / 100) ''Converting Office document to PDF...'')")
  case None
  have "posts (fst (convert_office_to_pdf w filename binary callback trace_id timeout)) =
        posts (fst (office_try w filename binary callback trace_id timeout))"
    by (simp add: office_started [OF None] split: sum.split)
  with None show ?thesis by (simp only: office_try_posts simp_thms)
next
  case (Some e)
  then show ?thesis by (simp add: office_start_raises)
qed

lemma office_file_ops:
  "file_ops (fst (convert_office_to_pdf w filename binary callback trace_id timeout)) =
     (if snd (notify callback (15 / 100) ''Converting Office document to PDF...'') = None
      then (case truthy binary of
              Some b \<Rightarrow> []
            | None \<Rightarrow>
                (case open_error w filename of
                   Some e \<Rightarrow> [Open filename]
                 | None \<Rightarrow> [Open filename, Close (FileHandle filename)]))
      else [])"
proof (cases "snd (notify callback (15 / 100) ''Converting Office document to PDF...'')")
  case None
  have "file_ops (fst (convert_office_to_pdf w filename binary callback trace_id timeout)) =
      file_ops (fst (office_try w filename binary callback trace_id timeout))
      @ (case fst (snd (office_try w filename binary callback trace_id timeout)) of
           Some h \<Rightarrow> [Close h] | None \<Rightarrow> [])"
  proof (cases "snd (snd (office_try w filename binary callback trace_id timeout))")
    case (Inl e)
    then show ?thesis by (simp add: office_started [OF None] office_except_file_ops)
  next
    case (Inr v)
    then show ?thesis by (simp add: office_started [OF None] office_try_returned [OF Inr])
  qed
  with None show ?thesis by (simp only: office_try_file_ops simp_thms if_True)
next
  case (Some e)
  then show ?thesis by (simp add: office_start_raises)
qed

lemma office_result:
  assumes "snd (notify callback (15 / 100) ''Converting Office document to PDF...'') = None"
    and "part_in_hand w filename binary"
  shows "snd (convert_office_to_pdf w filename binary callback trace_id timeout) =
     (case post_result w (office_request w filename binary trace_id timeout) of
        Inl e \<Rightarrow> Inl (snd (office_except callback None e))
      | Inr response \<Rightarrow>
          (case snd (office_respond filename callback response) of
             Inl e \<Rightarrow> Inl (snd (office_except callback None e))
           | Inr v \<Rightarrow> Inr v))"
  using office_try_result [OF assms(2), of callback trace_id timeout]
  by (simp add: office_started [OF assms(1)]
        office_except_any_handle(1) [of callback
          "fst (snd (office_try w filename binary callback trace_id timeout))"]
        split: sum.split)

lemma office_callbacks:
  assumes "snd (notify callback (15 / 100) ''Converting Office document to PDF...'') = None"
    and "part_in_hand w filename binary"
  shows "callbacks (fst (convert_office_to_pdf w filename binary callback trace_id timeout)) =
     callbacks (fst (notify callback (15 / 100) ''Converting Office document to PDF...''))
     @ (case post_result w (office_request w filename binary trace_id timeout) of
          Inl e \<Rightarrow> callbacks (fst (office_except callback None e))
        | Inr response \<Rightarrow>
            callbacks (fst (office_respond filename callback response))
            @ (case snd (office_respond filename callback response) of
                 Inl e \<Rightarrow> callbacks (fst (office_except callback None e))
               | Inr v \<Rightarrow> []))"
  using office_try_result [OF assms(2), of callback trace_id timeout]
    office_try_callbacks [OF assms(2), of callback trace_id timeout]
  by (simp add: office_started [OF assms(1)]
        office_except_any_handle(2) [of callback
          "fst (snd (office_try w filename binary callback trace_id timeout))"]
        split: sum.split)

lemma office_open_fails:
  assumes "snd (notify callback (15 / 100) ''Converting Office document to PDF...'') = None"
    and "truthy binary = None" and "open_error w filename = Some e"
  shows "snd (convert_office_to_pdf w filename binary callback trace_id timeout) =
           Inl (snd (office_except callback None e))"
    and "callbacks (fst (convert_office_to_pdf w filename binary callback trace_id timeout)) =
           callbacks (fst (notify callback (15 / 100) ''Converting Office document to PDF...''))
           @ callbacks (fst (office_except callback None e))"
  by (simp_all add: office_started [OF assms(1)] office_try_open_fails [OF assms(2,3)])



text \<open>
  The callback calls of a run and its outcome, case by case: no callback; the first call
  raises; the run fails after the first call; the run returns; the call that reports
  success raises.
\<close>

lemma office_scenarios:
  "(callback = None
      \<and> callbacks (fst (convert_office_to_pdf w filename binary callback trace_id timeout)) = [])
   \<or> (\<exists>cb. callback = Some cb
         \<and> ((cb (15 / 100) ''Converting Office document to PDF...'' \<noteq> None
               \<and> map fst (callbacks (fst (convert_office_to_pdf w filename binary callback
                                             trace_id timeout))) = [15 / 100]
               \<and> isl (snd (convert_office_to_pdf w filename binary callback trace_id timeout)))
            \<or> (cb (15 / 100) ''Converting Office document to PDF...'' = None
                 \<and> map fst (callbacks (fst (convert_office_to_pdf w filename binary callback
                                               trace_id timeout))) = [15 / 100, - 1]
                 \<and> isl (snd (convert_office_to_pdf w filename binary callback trace_id timeout)))
            \<or> (cb (15 / 100) ''Converting Office document to PDF...'' = None
                 \<and> cb (2 / 10) ''Office document converted to PDF successfully'' = None
                 \<and> map fst (callbacks (fst (convert_office_to_pdf w filename binary callback
                                               trace_id timeout))) = [15 / 100, 2 / 10]
                 \<and> \<not> isl (snd (convert_office_to_pdf w filename binary callback trace_id
                                  timeout)))
            \<or> (cb (15 / 100) ''Converting Office document to PDF...'' = None
                 \<and> cb (2 / 10) ''Office document converted to PDF successfully'' \<noteq> None
                 \<and> map fst (callbacks (fst (convert_office_to_pdf w filename binary callback
                                               trace_id timeout))) = [15 / 100, 2 / 10, - 1]
                 \<and> isl (snd (convert_office_to_pdf w filename binary callback trace_id
                                timeout)))))"
proof (cases callback)
  case None
  then have s: "snd (notify callback (15 / 100) ''Converting Office document to PDF...'') = None"
    by simp
  have "callbacks (fst (convert_office_to_pdf w filename binary callback trace_id timeout)) = []"
  proof (cases "part_in_hand w filename binary")
    case True
    from office_callbacks [OF s True, of trace_id timeout] None show ?thesis
      by (simp add: office_except_callbacks office_respond_callbacks split: sum.split)
  next
    case False
    then obtain e where "truthy binary = None" and "open_error w filename = Some e"
      by (auto simp: part_in_hand_def split: option.splits)
    from office_open_fails(2) [OF s this] None show ?thesis
      by (simp add: office_except_callbacks)
  qed
  with None show ?thesis by simp
next
  case (Some cb)
  let ?run = "convert_office_to_pdf w filename binary callback trace_id timeout"
  show ?thesis
  proof (cases "cb (15 / 100) ''Converting Office document to PDF...''")
    case raised: (Some e)
    with Some
    have "snd (notify callback (15 / 100) ''Converting Office document to PDF...'') = Some e"
      by (simp add: notify_Some)
    from office_start_raises [OF this, of w filename binary trace_id timeout] Some
    have "map fst (callbacks (fst ?run)) = [15 / 100] \<and> isl (snd ?run)"
      by (simp add: notify_callbacks)
    with Some raised show ?thesis by simp
  next
    case None
    with Some
    have s: "snd (notify callback (15 / 100) ''Converting Office document to PDF...'') = None"
      by (simp add: notify_Some)
    have failing: "map fst (callbacks (fst ?run)) = [15 / 100, - 1] \<and> isl (snd ?run)"
      if "snd ?run = Inl (snd (office_except callback None e))"
        and "callbacks (fst ?run) =
          callbacks (fst (notify callback (15 / 100) ''Converting Office document to PDF...''))
          @ callbacks (fst (office_except callback None e))"
      for e
      using that Some by (simp add: notify_callbacks office_except_callbacks)
    show ?thesis
    proof (cases "part_in_hand w filename binary")
      case False
      then obtain e where "truthy binary = None" and "open_error w filename = Some e"
        by (auto simp: part_in_hand_def split: option.splits)
      from failing [OF office_open_fails [OF s this]] Some None show ?thesis by simp
    next
      case True
      note r = office_result [OF s True, of trace_id timeout]
      note c = office_callbacks [OF s True, of trace_id timeout]
      show ?thesis
      proof (cases "post_result w (office_request w filename binary trace_id timeout)")
        case (Inl e)
        with r c have "snd ?run = Inl (snd (office_except callback None e))"
          and "callbacks (fst ?run) =
            callbacks (fst (notify callback (15 / 100) ''Converting Office document to PDF...''))
            @ callbacks (fst (office_except callback None e))"
          by simp_all
        from failing [OF this] Some None show ?thesis by simp
      next
        case (Inr response)
        show ?thesis
        proof (cases "status_code response = 200")
          case False
          from office_respond_failure_starts [OF False, of filename callback]
          obtain rest where i: "snd (office_respond filename callback response) =
              Inl (Raise Exception (''Gotenberg conversion failed'' @ rest))" ..
          from r c Inr i False
          have "snd ?run =
              Inl (snd (office_except callback None
                          (Raise Exception (''Gotenberg conversion failed'' @ rest))))"
            and "callbacks (fst ?run) =
              callbacks (fst (notify callback (15 / 100) ''Converting Office document to PDF...''))
              @ callbacks (fst (office_except callback None
                                  (Raise Exception (''Gotenberg conversion failed'' @ rest))))"
            by (simp_all add: office_respond_callbacks)
          from failing [OF this] Some None show ?thesis by simp
        next
          case True
          show ?thesis
          proof (cases "cb (2 / 10) ''Office document converted to PDF successfully''")
            case returned: None
            with Some have "snd (notify callback (2 / 10)
                ''Office document converted to PDF successfully'') = None"
              by (simp add: notify_Some)
            with r c Inr True Some
            have "map fst (callbacks (fst ?run)) = [15 / 100, 2 / 10] \<and> \<not> isl (snd ?run)"
              by (simp add: office_respond_200 office_respond_callbacks notify_callbacks)
            with Some None returned show ?thesis by simp
          next
            case thrown: (Some e)
            with Some have "snd (notify callback (2 / 10)
                ''Office document converted to PDF successfully'') = Some e"
              by (simp add: notify_Some)
            with r c Inr True Some
            have "map fst (callbacks (fst ?run)) = [15 / 100, 2 / 10, - 1] \<and> isl (snd ?run)"
              by (simp add: office_respond_200 office_respond_callbacks notify_callbacks
                    office_except_callbacks)
            with Some None thrown show ?thesis by simp
          qed
        qed
      qed
    qed
  qed
qed

subsection \<open>convert_html_to_pdf, block by block\<close>

lemma html_respond_posts [simp]:
  "posts (fst (html_respond filename callback response)) = []"
  by (simp add: html_respond_def Let_def split_beta)

lemma html_respond_file_ops [simp]:
  "file_ops (fst (html_respond filename callback response)) = []"
  by (simp add: html_respond_def Let_def split_beta)

lemma html_respond_callbacks:
  "callbacks (fst (html_respond filename callback response)) =
     (if status_code response = 200
      then callbacks (fst (notify callback (2 / 10)
                             ''HTML document converted to PDF successfully''))
      else [])"
  by (simp add: html_respond_def Let_def split_beta)

lemma html_respond_200:
  "status_code response = 200 \<Longrightarrow>
   snd (html_respond filename callback response) =
     (case snd (notify callback (2 / 10) ''HTML document converted to PDF successfully'') of
        Some e \<Rightarrow> Inl e
      | None \<Rightarrow> Inr (content response, fst (splitext filename) @ ''.pdf''))"
  by (simp add: html_respond_def Let_def split_beta)

lemma html_respond_400:
  "status_code response = 400 \<Longrightarrow>
   snd (html_respond filename callback response) =
     Inl (Raise Exception (''Gotenberg conversion failed: Bad Request - '' @ resp_text response))"
  by (simp add: html_respond_def Let_def)

lemma html_respond_503:
  "status_code response = 503 \<Longrightarrow>
   snd (html_respond filename callback response) =
     Inl (Raise Exception
            (''Gotenberg conversion failed: Service Unavailable - '' @ resp_text response))"
  by (simp add: html_respond_def Let_def)

lemma html_respond_other:
  "status_code response \<noteq> 200 \<Longrightarrow> status_code response \<noteq> 400 \<Longrightarrow>
   status_code response \<noteq> 503 \<Longrightarrow>
   snd (html_respond filename callback response) =
     Inl (Raise Exception
            (''Gotenberg conversion failed with status '' @ str_int (status_code response)
             @ '': '' @ resp_text response))"
  by (simp add: html_respond_def Let_def)

lemma html_respond_returns:
  "snd (html_respond filename callback response) = Inr v \<Longrightarrow>
   status_code response = 200
   \<and> snd (notify callback (2 / 10) ''HTML document converted to PDF successfully'') = None"
  by (simp add: html_respond_def Let_def split_beta split: if_splits option.splits)

lemma html_respond_failure_starts:
  assumes "status_code response \<noteq> 200"
  shows "\<exists>rest. snd (html_respond filename callback response) =
           Inl (Raise Exception (''Gotenberg conversion failed'' @ rest))"
proof -
  consider "status_code response = 400" | "status_code response = 503"
    | "status_code response \<noteq> 400" "status_code response \<noteq> 503"
    by blast
  then show ?thesis
  proof cases
    case 1
    show ?thesis
      by (rule exI [of _ "'': Bad Request - '' @ resp_text response"])
        (simp add: html_respond_400 [OF 1])
  next
    case 2
    show ?thesis
      by (rule exI [of _ "'': Service Unavailable - '' @ resp_text response"])
        (simp add: html_respond_503 [OF 2])
  next
    case 3
    show ?thesis
      by (rule exI [of _ "'' with status '' @ str_int (status_code response) @ '': ''
                          @ resp_text response"])
        (simp add: html_respond_other [OF assms 3])
  qed
qed

lemma html_except_posts [simp]: "posts (fst (html_except callback file_handle e)) = []"
  by (simp add: html_except_def Let_def split_beta)

lemma html_except_file_ops:
  "file_ops (fst (html_except callback file_handle e)) =
     (case file_handle of Some h \<Rightarrow> [Close h] | None \<Rightarrow> [])"
  by (simp add: html_except_def Let_def split_beta)

lemma html_except_callbacks:
  "callbacks (fst (html_except callback file_handle e)) =
     callbacks (fst (notify callback (- 1)
                       ((if is_RequestException (exc_class e)
                         then ''Failed to convert HTML document to PDF (network error): ''
                         else ''Failed to convert HTML document to PDF: '') @ exc_str e)))"
  by (simp add: html_except_def Let_def split_beta)

lemma html_except_raised:
  "snd (html_except callback file_handle e) =
     (case snd (notify callback (- 1)
                  ((if is_RequestException (exc_class e)
                    then ''Failed to convert HTML document to PDF (network error): ''
                    else ''Failed to convert HTML document to PDF: '') @ exc_str e)) of
        Some thrown \<Rightarrow> thrown
      | None \<Rightarrow>
          Raise Exception
            ((if is_RequestException (exc_class e)
              then ''Failed to convert HTML document to PDF (network error): ''
              else ''Failed to convert HTML document to PDF: '') @ exc_str e))"
  by (cases "is_RequestException (exc_class e)")
    (simp_all add: html_except_def Let_def split_beta split: option.split)

lemma html_except_any_handle:
  "snd (html_except callback file_handle e) = snd (html_except callback None e)"
  "callbacks (fst (html_except callback file_handle e)) =
     callbacks (fst (html_except callback None e))"
  by (simp_all only: html_except_raised html_except_callbacks)

lemma html_send_posts:
  "posts (fst (html_send w filename callback trace_id timeout url file_handle files)) =
     [\<lparr>req_url = url, req_files = files,
       req_headers = (case truthy trace_id of
                        Some t \<Rightarrow> [(''Gotenberg-Trace'', t)]
                      | None \<Rightarrow> []),
       req_timeout = timeout\<rparr>]"
  by (simp add: html_send_def Let_def split_beta split: sum.split)

lemma html_send_result:
  "snd (snd (html_send w filename callback trace_id timeout url file_handle files)) =
     (case post_result w
             \<lparr>req_url = url, req_files = files,
              req_headers = (case truthy trace_id of
                               Some t \<Rightarrow> [(''Gotenberg-Trace'', t)]
                             | None \<Rightarrow> []),
              req_timeout = timeout\<rparr> of
        Inl e \<Rightarrow> Inl e
      | Inr response \<Rightarrow> snd (html_respond filename callback response))"
  by (simp add: html_send_def Let_def split_beta split: sum.split)

lemma html_send_callbacks:
  "callbacks (fst (html_send w filename callback trace_id timeout url file_handle files)) =
     (case post_result w
             \<lparr>req_url = url, req_files = files,
              req_headers = (case truthy trace_id of
                               Some t \<Rightarrow> [(''Gotenberg-Trace'', t)]
                             | None \<Rightarrow> []),
              req_timeout = timeout\<rparr> of
        Inl e \<Rightarrow> []
      | Inr response \<Rightarrow> callbacks (fst (html_respond filename callback response)))"
  by (simp add: html_send_def Let_def split_beta split: sum.split)

lemma html_send_file_ops:
  "file_ops (fst (html_send w filename callback trace_id timeout url file_handle files))
   @ (case fst (snd (html_send w filename callback trace_id timeout url file_handle files)) of
        Some h \<Rightarrow> [Close h] | None \<Rightarrow> []) =
   (case file_handle of Some h \<Rightarrow> [Close h] | None \<Rightarrow> [])"
  by (simp add: html_send_def Let_def split_beta split: sum.split)

lemma html_send_returned:
  "snd (snd (html_send w filename callback trace_id timeout url file_handle files)) = Inr v
   \<Longrightarrow> fst (snd (html_send w filename callback trace_id timeout url file_handle files)) = None"
  by (simp add: html_send_def Let_def split_beta split: sum.splits)

lemma html_try_open_fails:
  "truthy binary = None \<Longrightarrow> open_error w filename = Some e \<Longrightarrow>
   html_try w filename binary callback trace_id timeout = ([Open filename], None, Inl e)"
  by (simp add: html_try_def open_rb_def Let_def)

lemma html_try_posts:
  "posts (fst (html_try w filename binary callback trace_id timeout)) =
     (if part_in_hand w filename binary
      then [html_request w filename binary trace_id timeout] else [])"
  by (auto simp add: html_try_def open_rb_def Let_def split_beta html_send_posts
        part_in_hand_def html_request_def split: option.split)

lemma html_try_result:
  "part_in_hand w filename binary \<Longrightarrow>
   snd (snd (html_try w filename binary callback trace_id timeout)) =
     (case post_result w (html_request w filename binary trace_id timeout) of
        Inl e \<Rightarrow> Inl e
      | Inr response \<Rightarrow> snd (html_respond filename callback response))"
  by (auto simp add: html_try_def open_rb_def Let_def split_beta html_send_result
        part_in_hand_def html_request_def split: option.splits)

lemma html_try_callbacks:
  "part_in_hand w filename binary \<Longrightarrow>
   callbacks (fst (html_try w filename binary callback trace_id timeout)) =
     (case post_result w (html_request w filename binary trace_id timeout) of
        Inl e \<Rightarrow> []
      | Inr response \<Rightarrow> callbacks (fst (html_respond filename callback response)))"
  by (auto simp add: html_try_def open_rb_def Let_def split_beta html_send_callbacks
        part_in_hand_def html_request_def split: option.splits)

lemma html_try_file_ops:
  "file_ops (fst (html_try w filename binary callback trace_id timeout))
   @ (case fst (snd (html_try w filename binary callback trace_id timeout)) of
        Some h \<Rightarrow> [Close h] | None \<Rightarrow> []) =
   (case truthy binary of
      Some b \<Rightarrow> []
    | None \<Rightarrow>
        (case open_error w filename of
           Some e \<Rightarrow> [Open filename]
         | None \<Rightarrow> [Open filename, Close (FileHandle filename)]))"
proof (cases "truthy binary")
  case None
  show ?thesis
  proof (cases "open_error w filename")
    case (Some e)
    with None show ?thesis by (simp add: html_try_open_fails)
  next
    case no_error: None
    with None show ?thesis
      using html_send_file_ops [of w filename callback trace_id timeout
          "get_gotenberg_url w @ ''/forms/chromium/convert/html''" "Some (FileHandle filename)"
          "[(''files'', ''index.html'', FileHandle filename)]"]
      by (simp add: html_try_def open_rb_def Let_def split_beta)
  qed
next
  case (Some b)
  then show ?thesis
    using html_send_file_ops [of w filename callback trace_id timeout
        "get_gotenberg_url w @ ''/forms/chromium/convert/html''" None
        "[(''files'', ''index.html'', BytesIO b)]"]
    by (simp add: html_try_def Let_def)
qed

lemma html_try_returned:
  "snd (snd (html_try w filename binary callback trace_id timeout)) = Inr v \<Longrightarrow>
   fst (snd (html_try w filename binary callback trace_id timeout)) = None"
  by (auto simp add: html_try_def open_rb_def Let_def split_beta
        split: option.splits dest: html_send_returned)

subsection \<open>convert_html_to_pdf, the whole function\<close>

lemma html_start_raises:
  "snd (notify callback (15 / 100) ''Converting HTML document to PDF...'') = Some e \<Longrightarrow>
   convert_html_to_pdf w filename binary callback trace_id timeout =
     (fst (notify callback (15 / 100) ''Converting HTML document to PDF...''), Inl e)"
  by (simp add: convert_html_to_pdf_def split_beta)

lemma html_started:
  assumes "snd (notify callback (15 / 100) ''Converting HTML document to PDF...'') = None"
  shows "convert_html_to_pdf w filename binary callback trace_id timeout =
     (case snd (snd (html_try w filename binary callback trace_id timeout)) of
        Inr v \<Rightarrow>
          (fst (notify callback (15 / 100) ''Converting HTML document to PDF...'')
           @ fst (html_try w filename binary callback trace_id timeout), Inr v)
      | Inl e \<Rightarrow>
          (fst (notify callback (15 / 100) ''Converting HTML document to PDF...'')
           @ fst (html_try w filename binary callback trace_id timeout)
           @ fst (html_except callback
                    (fst (snd (html_try w filename binary callback trace_id timeout))) e),
           Inl (snd (html_except callback
                       (fst (snd (html_try w filename binary callback trace_id timeout))) e))))"
  using assms by (simp add: convert_html_to_pdf_def Let_def split_beta split: sum.split)

lemma html_posts:
  "posts (fst (convert_html_to_pdf w filename binary callback trace_id timeout)) =
     (if snd (notify callback (15 / 100) ''Converting HTML document to PDF...'') = None
         \<and> part_in_hand w filename binary
      then [html_request w filename binary trace_id timeout] else [])"
proof (cases "snd (notify callback (15 / 100) ''Converting HTML document to PDF...'')")
  case None
  have "posts (fst (convert_html_to_pdf w filename binary callback trace_id timeout)) =
        posts (fst (html_try w filename binary callback trace_id timeout))"
    by (simp add: html_started [OF None] split: sum.split)
  with None show ?thesis by (simp only: html_try_posts simp_thms)
next
  case (Some e)
  then show ?thesis by (simp add: html_start_raises)
qed

lemma html_file_ops:
  "file_ops (fst (convert_html_to_pdf w filename binary callback trace_id timeout)) =
     (if snd (notify callback (15 / 100) ''Converting HTML document to PDF...'') = None
      then (case truthy binary of
              Some b \<Rightarrow> []
            | None \<Rightarrow>
                (case open_error w filename of
                   Some e \<Rightarrow> [Open filename]
                 | None \<Rightarrow> [Open filename, Close (FileHandle filename)]))
      else [])"
proof (cases "snd (notify callback (15 / 100) ''Converting HTML document to PDF...'')")
  case None
  have "file_ops (fst (convert_html_to_pdf w filename binary callback trace_id timeout)) =
      file_ops (fst (html_try w filename binary callback trace_id timeout))
      @ (case fst (snd (html_try w filename binary callback trace_id timeout)) of
           Some h \<Rightarrow> [Close h] | None \<Rightarrow> [])"
  proof (cases "snd (snd (html_try w filename binary callback trace_id timeout))")
    case (Inl e)
    then show ?thesis by (simp add: html_started [OF None] html_except_file_ops)
  next
    case (Inr v)
    then show ?thesis by (simp add: html_started [OF None] html_try_returned [OF Inr])
  qed
  with None show ?thesis by (simp only: html_try_file_ops simp_thms if_True)
next
  case (Some e)
  then show ?thesis by (simp add: html_start_raises)
qed

lemma html_result:
  assumes "snd (notify callback (15 / 100) ''Converting HTML document to PDF...'') = None"
    and "part_in_hand w filename binary"
  shows "snd (convert_html_to_pdf w filename binary callback trace_id timeout) =
     (case post_result w (html_request w filename binary trace_id timeout) of
        Inl e \<Rightarrow> Inl (snd (html_except callback None e))
      | Inr response \<Rightarrow>
          (case snd (html_respond filename callback response) of
             Inl e \<Rightarrow> Inl (snd (html_except callback None e))
           | Inr v \<Rightarrow> Inr v))"
  using html_try_result [OF assms(2), of callback trace_id timeout]
  by (simp add: html_started [OF assms(1)]
        html_except_any_handle(1) [of callback
          "fst (snd (html_try w filename binary callback trace_id timeout))"]
        split: sum.split)

lemma html_callbacks:
  assumes "snd (notify callback (15 / 100) ''Converting HTML document to PDF...'') = None"
    and "part_in_hand w filename binary"
  shows "callbacks (fst (convert_html_to_pdf w filename binary callback trace_id timeout)) =
     callbacks (fst (notify callback (15 / 100) ''Converting HTML document to PDF...''))
     @ (case post_result w (html_request w filename binary trace_id timeout) of
          Inl e \<Rightarrow> callbacks (fst (html_except callback None e))
        | Inr response \<Rightarrow>
            callbacks (fst (html_respond filename callback response))
            @ (case snd (html_respond filename callback response) of
                 Inl e \<Rightarrow> callbacks (fst (html_except callback None e))
               | Inr v \<Rightarrow> []))"
  using html_try_result [OF assms(2), of callback trace_id timeout]
    html_try_callbacks [OF assms(2), of callback trace_id timeout]
  by (simp add: html_started [OF assms(1)]
        html_except_any_handle(2) [of callback
          "fst (snd (html_try w filename binary callback trace_id timeout))"]
        split: sum.split)

lemma html_open_fails:
  assumes "snd (notify callback (15 / 100) ''Converting HTML document to PDF...'') = None"
    and "truthy binary = None" and "open_error w filename = Some e"
  shows "snd (convert_html_to_pdf w filename binary callback trace_id timeout) =
           Inl (snd (html_except callback None e))"
    and "callbacks (fst (convert_html_to_pdf w filename binary callback trace_id timeout)) =
           callbacks (fst (notify callback (15 / 100) ''Converting HTML document to PDF...''))
           @ callbacks (fst (html_except callback None e))"
  by (simp_all add: html_started [OF assms(1)] html_try_open_fails [OF assms(2,3)])



text \<open>
  The callback calls of a run and its outcome, case by case: no callback; the first call
  raises; the run fails after the first call; the run returns; the call that reports
  success raises.
\<close>

lemma html_scenarios:
  "(callback = None
      \<and> callbacks (fst (convert_html_to_pdf w filename binary callback trace_id timeout)) = [])
   \<or> (\<exists>cb. callback = Some cb
         \<and> ((cb (15 / 100) ''Converting HTML document to PDF...'' \<noteq> None
               \<and> map fst (callbacks (fst (convert_html_to_pdf w filename binary callback
                                             trace_id timeout))) = [15 / 100]
               \<and> isl (snd (convert_html_to_pdf w filename binary callback trace_id timeout)))
            \<or> (cb (15 / 100) ''Converting HTML document to PDF...'' = None
                 \<and> map fst (callbacks (fst (convert_html_to_pdf w filename binary callback
                                               trace_id timeout))) = [15 / 100, - 1]
                 \<and> isl (snd (convert_html_to_pdf w filename binary callback trace_id timeout)))
            \<or> (cb (15 / 100) ''Converting HTML document to PDF...'' = None
                 \<and> cb (2 / 10) ''HTML document converted to PDF successfully'' = None
                 \<and> map fst (callbacks (fst (convert_html_to_pdf w filename binary callback
                                               trace_id timeout))) = [15 / 100, 2 / 10]
                 \<and> \<not> isl (snd (convert_html_to_pdf w filename binary callback trace_id
                                  timeout)))
            \<or> (cb (15 / 100) ''Converting HTML document to PDF...'' = None
                 \<and> cb (2 / 10) ''HTML document converted to PDF successfully'' \<noteq> None
                 \<and> map fst (callbacks (fst (convert_html_to_pdf w filename binary callback
                                               trace_id timeout))) = [15 / 100, 2 / 10, - 1]
                 \<and> isl (snd (convert_html_to_pdf w filename binary callback trace_id
                                timeout)))))"
proof (cases callback)
  case None
  then have s: "snd (notify callback (15 / 100) ''Converting HTML document to PDF...'') = None"
    by simp
  have "callbacks (fst (convert_html_to_pdf w filename binary callback trace_id timeout)) = []"
  proof (cases "part_in_hand w filename binary")
    case True
    from html_callbacks [OF s True, of trace_id timeout] None show ?thesis
      by (simp add: html_except_callbacks html_respond_callbacks split: sum.split)
  next
    case False
    then obtain e where "truthy binary = None" and "open_error w filename = Some e"
      by (auto simp: part_in_hand_def split: option.splits)
    from html_open_fails(2) [OF s this] None show ?thesis
      by (simp add: html_except_callbacks)
  qed
  with None show ?thesis by simp
next
  case (Some cb)
  let ?run = "convert_html_to_pdf w filename binary callback trace_id timeout"
  show ?thesis
  proof (cases "cb (15 / 100) ''Converting HTML document to PDF...''")
    case raised: (Some e)
    with Some
    have "snd (notify callback (15 / 100) ''Converting HTML document to PDF...'') = Some e"
      by (simp add: notify_Some)
    from html_start_raises [OF this, of w filename binary trace_id timeout] Some
    have "map fst (callbacks (fst ?run)) = [15 / 100] \<and> isl (snd ?run)"
      by (simp add: notify_callbacks)
    with Some raised show ?thesis by simp
  next
    case None
    with Some
    have s: "snd (notify callback (15 / 100) ''Converting HTML document to PDF...'') = None"
      by (simp add: notify_Some)
    have failing: "map fst (callbacks (fst ?run)) = [15 / 100, - 1] \<and> isl (snd ?run)"
      if "snd ?run = Inl (snd (html_except callback None e))"
        and "callbacks (fst ?run) =
          callbacks (fst (notify callback (15 / 100) ''Converting HTML document to PDF...''))
          @ callbacks (fst (html_except callback None e))"
      for e
      using that Some by (simp add: notify_callbacks html_except_callbacks)
    show ?thesis
    proof (cases "part_in_hand w filename binary")
      case False
      then obtain e where "truthy binary = None" and "open_error w filename = Some e"
        by (auto simp: part_in_hand_def split: option.splits)
      from failing [OF html_open_fails [OF s this]] Some None show ?thesis by simp
    next
      case True
      note r = html_result [OF s True, of trace_id timeout]
      note c = html_callbacks [OF s True, of trace_id timeout]
      show ?thesis
      proof (cases "post_result w (html_request w filename binary trace_id timeout)")
        case (Inl e)
        with r c have "snd ?run = Inl (snd (html_except callback None e))"
          and "callbacks (fst ?run) =
            callbacks (fst (notify callback (15 / 100) ''Converting HTML document to PDF...''))
            @ callbacks (fst (html_except callback None e))"
          by simp_all
        from failing [OF this] Some None show ?thesis by simp
      next
        case (Inr response)
        show ?thesis
        proof (cases "status_code response = 200")
          case False
          from html_respond_failure_starts [OF False, of filename callback]
          obtain rest where i: "snd (html_respond filename callback response) =
              Inl (Raise Exception (''Gotenberg conversion failed'' @ rest))" ..
          from r c Inr i False
          have "snd ?run =
              Inl (snd (html_except callback None
                          (Raise Exception (''Gotenberg conversion failed'' @ rest))))"
            and "callbacks (fst ?run) =
              callbacks (fst (notify callback (15 / 100) ''Converting HTML document to PDF...''))
              @ callbacks (fst (html_except callback None
                                  (Raise Exception (''Gotenberg conversion failed'' @ rest))))"
            by (simp_all add: html_respond_callbacks)
          from failing [OF this] Some None show ?thesis by simp
        next
          case True
          show ?thesis
          proof (cases "cb (2 / 10) ''HTML document converted to PDF successfully''")
            case returned: None
            with Some have "snd (notify callback (2 / 10)
                ''HTML document converted to PDF successfully'') = None"
              by (simp add: notify_Some)
            with r c Inr True Some
            have "map fst (callbacks (fst ?run)) = [15 / 100, 2 / 10] \<and> \<not> isl (snd ?run)"
              by (simp add: html_respond_200 html_respond_callbacks notify_callbacks)
            with Some None returned show ?thesis by simp
          next
            case thrown: (Some e)
            with Some have "snd (notify callback (2 / 10)
                ''HTML document converted to PDF successfully'') = Some e"
              by (simp add: notify_Some)
            with r c Inr True Some
            have "map fst (callbacks (fst ?run)) = [15 / 100, 2 / 10, - 1] \<and> isl (snd ?run)"
              by (simp add: html_respond_200 html_respond_callbacks notify_callbacks
                    html_except_callbacks)
            with Some None thrown show ?thesis by simp
          qed
        qed
      qed
    qed
  qed
qed

section \<open>Properties of the converters\<close>

text \<open>
  Where a statement holds of both converters, \<open>convert\<close> stands for either of them,
  together with what differs between the two: the request it builds, the messages of its
  callback calls, the word \<open>Office\<close> or \<open>HTML\<close> of its error messages. A run meets
  a response when the first callback call returns, the file part is in hand, and
  \<open>requests.post\<close> answers the request of the run with that response.
\<close>

subsection \<open>Success\<close>

text \<open>
  C1, as written: for every response with status 200 the function returns the pair of
  the response body and the \<open>.pdf\<close> name. The callback is called with \<open>0.2\<close> inside
  the \<open>try\<close> block, before the \<open>return\<close>: when that call raises, the handler takes
  over and the function raises, although the response had status 200.
\<close>

theorem status_200_run_raises_when_callback_raises:
  "map (post_result world_ok)
     (posts (fst (convert_office_to_pdf world_ok ''docs/report.docx'' (Some [80, 75])
                    (Some raising_on_success) None 120))) =
     [Inr \<lparr>status_code = 200, content = [37, 80, 68, 70], resp_text = ''%PDF''\<rparr>]
   \<and> snd (convert_office_to_pdf world_ok ''docs/report.docx'' (Some [80, 75])
            (Some raising_on_success) None 120) =
       Inl (Raise Exception ''Failed to convert Office document to PDF: boom'')
   \<and> map (post_result world_ok)
       (posts (fst (convert_html_to_pdf world_ok ''page.html'' None
                      (Some raising_on_success) None 120))) =
       [Inr \<lparr>status_code = 200, content = [37, 80, 68, 70], resp_text = ''%PDF''\<rparr>]
   \<and> snd (convert_html_to_pdf world_ok ''page.html'' None (Some raising_on_success) None 120) =
       Inl (Raise Exception ''Failed to convert HTML document to PDF: boom'')"
  by code_simp

text \<open>
  C1, amended. For both converters, for every response with status 200: when no callback
  is given, or the callback's call with \<open>0.2\<close> returns, the function returns a pair
  whose first component is the response body exactly and whose second is the input
  filename with its extension (as \<open>os.path.splitext\<close> cuts it) replaced by
  \<open>.pdf\<close>; when that call raises, the function raises.
\<close>

theorem status_200_returns_body_and_pdf_name:
  assumes "(convert, request, start, done) =
             (convert_office_to_pdf, office_request, ''Converting Office document to PDF...'',
              ''Office document converted to PDF successfully'')
           \<or> (convert, request, start, done) =
               (convert_html_to_pdf, html_request, ''Converting HTML document to PDF...'',
                ''HTML document converted to PDF successfully'')"
    and "snd (notify callback (15 / 100) start) = None"
    and "part_in_hand w filename binary"
    and "post_result w (request w filename binary trace_id timeout) = Inr response"
    and "status_code response = 200"
  shows "(snd (notify callback (2 / 10) done) = None \<longrightarrow>
            snd (convert w filename binary callback trace_id timeout) =
              Inr (content response, fst (splitext filename) @ ''.pdf''))
         \<and> (\<forall>e. snd (notify callback (2 / 10) done) = Some e \<longrightarrow>
                (\<exists>thrown. snd (convert w filename binary callback trace_id timeout) = Inl thrown))
         \<and> fst (splitext filename) @ snd (splitext filename) = filename"
proof -
  from assms(1) show ?thesis
  proof
    assume c: "(convert, request, start, done) =
        (convert_office_to_pdf, office_request, ''Converting Office document to PDF...'',
         ''Office document converted to PDF successfully'')"
    with assms(2)
    have s: "snd (notify callback (15 / 100) ''Converting Office document to PDF...'') = None"
      by simp
    from c assms(4)
    have a: "post_result w (office_request w filename binary trace_id timeout) = Inr response"
      by simp
    from office_result [OF s assms(3), of trace_id timeout] a assms(5) c show ?thesis
      by (auto simp: office_respond_200 splitext_concat)
  next
    assume c: "(convert, request, start, done) =
        (convert_html_to_pdf, html_request, ''Converting HTML document to PDF...'',
         ''HTML document converted to PDF successfully'')"
    with assms(2)
    have s: "snd (notify callback (15 / 100) ''Converting HTML document to PDF...'') = None"
      by simp
    from c assms(4)
    have a: "post_result w (html_request w filename binary trace_id timeout) = Inr response"
      by simp
    from html_result [OF s assms(3), of trace_id timeout] a assms(5) c show ?thesis
      by (auto simp: html_respond_200 splitext_concat)
  qed
qed

theorem status_200_returns_body_and_pdf_name_witness:
  "snd (convert_office_to_pdf world_ok ''docs/report.docx'' (Some [80, 75])
          (Some quiet_callback) None 120) = Inr ([37, 80, 68, 70], ''docs/report.pdf'')
   \<and> snd (convert_html_to_pdf world_ok ''site.d/page.v2.html'' None None (Some ''t-1'') 30) =
       Inr ([37, 80, 68, 70], ''site.d/page.v2.pdf'')
   \<and> (\<exists>thrown. snd (convert_html_to_pdf world_ok ''site.d/page.v2.html'' None
                       (Some raising_on_success) (Some ''t-1'') 30) = Inl thrown)"
proof -
  let ?r = "\<lparr>status_code = 200, content = [37, 80, 68, 70], resp_text = ''%PDF''\<rparr>"
  have s1: "snd (notify (Some quiet_callback) (15 / 100)
                   ''Converting Office document to PDF...'') = None"
    and d1: "snd (notify (Some quiet_callback) (2 / 10)
                   ''Office document converted to PDF successfully'') = None"
    by (simp_all add: notify_def quiet_callback_def)
  have s2: "snd (notify None (15 / 100) ''Converting HTML document to PDF...'') = None"
    and d2: "snd (notify None (2 / 10) ''HTML document converted to PDF successfully'') = None"
    by simp_all
  have s3: "snd (notify (Some raising_on_success) (15 / 100)
                   ''Converting HTML document to PDF...'') = None"
    and d3: "snd (notify (Some raising_on_success) (2 / 10)
                   ''HTML document converted to PDF successfully'') =
               Some (Raise ValueError ''boom'')"
    by (simp_all add: notify_def raising_on_success_def)
  have h1: "part_in_hand world_ok ''docs/report.docx'' (Some [80, 75])"
    and h2: "part_in_hand world_ok ''site.d/page.v2.html'' None"
    by (simp_all add: part_in_hand_def truthy_def world_ok_def)
  have a1: "post_result world_ok
              (office_request world_ok ''docs/report.docx'' (Some [80, 75]) None 120) = Inr ?r"
    and a2: "post_result world_ok
              (html_request world_ok ''site.d/page.v2.html'' None (Some ''t-1'') 30) = Inr ?r"
    by (simp_all add: world_ok_def)
  have st: "status_code ?r = 200" by simp
  have e1: "fst (splitext ''docs/report.docx'') = ''docs/report''"
    and e2: "fst (splitext ''site.d/page.v2.html'') = ''site.d/page.v2''"
    by code_simp+
  from status_200_returns_body_and_pdf_name [OF disjI1 [OF refl] s1 h1 a1 st] d1
  have c1: "snd (convert_office_to_pdf world_ok ''docs/report.docx'' (Some [80, 75])
          (Some quiet_callback) None 120) = Inr ([37, 80, 68, 70], ''docs/report.pdf'')"
    by (simp add: e1)
  from status_200_returns_body_and_pdf_name [OF disjI2 [OF refl] s2 h2 a2 st] d2
  have c2: "snd (convert_html_to_pdf world_ok ''site.d/page.v2.html'' None None (Some ''t-1'') 30) =
       Inr ([37, 80, 68, 70], ''site.d/page.v2.pdf'')"
    by (simp add: e2)
  from status_200_returns_body_and_pdf_name [OF disjI2 [OF refl] s3 h2 a2 st] d3
  have c3: "\<exists>thrown. snd (convert_html_to_pdf world_ok ''site.d/page.v2.html'' None
                       (Some raising_on_success) (Some ''t-1'') 30) = Inl thrown"
    by blast
  from c1 c2 c3 show ?thesis by blast
qed

subsection \<open>Where the uploaded content comes from\<close>

text \<open>
  When \<open>binary\<close> holds at least one byte, neither converter opens or closes a file,
  and the request of a run that reaches \<open>requests.post\<close> carries the bytes as an
  in-memory part.
\<close>

lemma nonempty_binary_stays_in_memory:
  assumes "convert = convert_office_to_pdf \<or> convert = convert_html_to_pdf"
    and "binary = Some b" and "b \<noteq> []"
  shows "file_ops (fst (convert w filename binary callback trace_id timeout)) = []
         \<and> (\<forall>req \<in> set (posts (fst (convert w filename binary callback trace_id timeout))).
               map (snd \<circ> snd) (req_files req) = [BytesIO b])"
  using assms
  by (auto simp: office_file_ops html_file_ops office_posts html_posts truthy_def
        office_request_def html_request_def split: if_splits)

text \<open>
  C2. For both converters, whenever the \<open>binary\<close> argument is supplied (is not
  \<open>None\<close>), no disk file is opened. The code tests \<open>if binary:\<close>, so this fails for
  the empty bytes object: with \<open>binary = b""\<close>, once the first callback call has
  returned, the first file operation of either converter is \<open>open(filename, 'rb')\<close>.
\<close>

theorem empty_binary_opens_the_file:
  "take 1 (file_ops (fst (convert_office_to_pdf w filename (Some []) callback trace_id timeout))) =
     (if snd (notify callback (15 / 100) ''Converting Office document to PDF...'') = None
      then [Open filename] else [])
   \<and> take 1 (file_ops (fst (convert_html_to_pdf w filename (Some []) callback trace_id timeout))) =
       (if snd (notify callback (15 / 100) ''Converting HTML document to PDF...'') = None
        then [Open filename] else [])
   \<and> take 1 (file_ops (fst (convert_office_to_pdf w filename (Some []) None trace_id timeout))) =
       [Open filename]
   \<and> take 1 (file_ops (fst (convert_html_to_pdf w filename (Some []) None trace_id timeout))) =
       [Open filename]"
  by (simp add: office_file_ops html_file_ops truthy_def split: option.split)

subsection \<open>The file handle\<close>

text \<open>
  C3. For both converters, whenever \<open>binary\<close> is omitted and the named file is opened,
  the handle is closed on every exit path: whatever \<open>requests.post\<close> does (a response
  of status 200, of any other status, or an exception) and whatever the later callback
  calls do, the file operations of the run are the one \<open>open\<close> followed by the one
  \<open>close\<close> of that handle. The file is opened when the first callback call returns;
  when that call raises, the run has no file operation at all.
\<close>

theorem opened_file_is_closed_on_every_path:
  assumes "(convert, start) = (convert_office_to_pdf, ''Converting Office document to PDF...'')
           \<or> (convert, start) = (convert_html_to_pdf, ''Converting HTML document to PDF...'')"
    and "truthy binary = None"
    and "open_error w filename = None"
  shows "file_ops (fst (convert w filename binary callback trace_id timeout)) =
           (if snd (notify callback (15 / 100) start) = None
            then [Open filename, Close (FileHandle filename)] else [])"
  using assms by (auto simp: office_file_ops html_file_ops)

theorem opened_file_is_closed_on_every_path_witness:
  "file_ops (fst (convert_office_to_pdf world_ok ''docs/report.docx'' None None None 120)) =
     [Open ''docs/report.docx'', Close (FileHandle ''docs/report.docx'')]
   \<and> file_ops (fst (convert_office_to_pdf world_bad_request ''docs/report.docx'' None
                       (Some raising_on_failure) None 120)) =
       [Open ''docs/report.docx'', Close (FileHandle ''docs/report.docx'')]
   \<and> file_ops (fst (convert_html_to_pdf world_server_error ''page.html'' None None None 120)) =
       [Open ''page.html'', Close (FileHandle ''page.html'')]
   \<and> file_ops (fst (convert_html_to_pdf world_timeout ''page.html'' None None None 120)) =
       [Open ''page.html'', Close (FileHandle ''page.html'')]
   \<and> file_ops (fst (convert_html_to_pdf world_ok ''page.html'' None
                       (Some raising_on_success) None 120)) =
       [Open ''page.html'', Close (FileHandle ''page.html'')]"
proof -
  have t: "truthy (None :: bytes option) = None" by (simp add: truthy_def)
  have o1: "open_error world_ok ''docs/report.docx'' = None"
    and o2: "open_error world_bad_request ''docs/report.docx'' = None"
    and o3: "open_error world_server_error ''page.html'' = None"
    and o4: "open_error world_timeout ''page.html'' = None"
    and o5: "open_error world_ok ''page.html'' = None"
    by (simp_all add: world_ok_def world_bad_request_def world_server_error_def world_timeout_def)
  have n1: "snd (notify (Some raising_on_failure) (15 / 100)
                   ''Converting Office document to PDF...'') = None"
    by (simp add: notify_def raising_on_failure_def)
  have n2: "snd (notify (Some raising_on_success) (15 / 100)
                   ''Converting HTML document to PDF...'') = None"
    by (simp add: notify_def raising_on_success_def)
  from opened_file_is_closed_on_every_path [OF disjI1 [OF refl] t o1, of None None 120]
    opened_file_is_closed_on_every_path [OF disjI1 [OF refl] t o2,
      of "Some raising_on_failure" None 120]
    opened_file_is_closed_on_every_path [OF disjI2 [OF refl] t o3, of None None 120]
    opened_file_is_closed_on_every_path [OF disjI2 [OF refl] t o4, of None None 120]
    opened_file_is_closed_on_every_path [OF disjI2 [OF refl] t o5,
      of "Some raising_on_success" None 120]
    n1 n2
  show ?thesis by simp
qed

subsection \<open>Status 400 and 503\<close>



subsection \<open>The request\<close>

text \<open>
  C5, as written: a trace id that is provided appears verbatim as the
  \<open>Gotenberg-Trace\<close> header. The code tests \<open>if trace_id:\<close>, so the empty string,
  though provided, is sent as no header at all.
\<close>

theorem empty_trace_id_sends_no_header:
  "map trace_header
     (posts (fst (convert_office_to_pdf world_ok ''docs/report.docx'' (Some [80, 75]) None
                    (Some '''') 120))) = [None]"
  by code_simp

text \<open>
  C5, amended. For both converters, every request posted carries the header
  \<open>Gotenberg-Trace\<close> with the trace id verbatim when a non-empty trace id is given,
  and no header at all when the trace id is \<open>None\<close> or the empty string.
\<close>

theorem trace_header_follows_truthy_trace_id:
  assumes "convert = convert_office_to_pdf \<or> convert = convert_html_to_pdf"
    and "req \<in> set (posts (fst (convert w filename binary callback trace_id timeout)))"
  shows "trace_header req = truthy trace_id
         \<and> req_headers req = (case truthy trace_id of
                                Some t \<Rightarrow> [(''Gotenberg-Trace'', t)]
                              | None \<Rightarrow> [])"
  using assms
  by (auto simp: office_posts html_posts office_request_def html_request_def trace_header_def
        split: if_splits option.splits)

theorem trace_header_follows_truthy_trace_id_witness:
  "(\<lparr>req_url = ''http://localhost:3000/forms/libreoffice/convert'',
      req_files = [(''files'', ''report.docx'', BytesIO [80, 75])],
      req_headers = [(''Gotenberg-Trace'', ''req-42'')], req_timeout = 120\<rparr>
      \<in> set (posts (fst (convert_office_to_pdf world_ok ''docs/report.docx''
                           (Some [80, 75]) None (Some ''req-42'') 120)))
    \<and> trace_header
        \<lparr>req_url = ''http://localhost:3000/forms/libreoffice/convert'',
         req_files = [(''files'', ''report.docx'', BytesIO [80, 75])],
         req_headers = [(''Gotenberg-Trace'', ''req-42'')], req_timeout = 120\<rparr> =
        Some ''req-42'')
   \<and> (\<lparr>req_url = ''http://localhost:3000/forms/chromium/convert/html'',
        req_files = [(''files'', ''index.html'', FileHandle ''page.html'')],
        req_headers = [], req_timeout = 60\<rparr>
        \<in> set (posts (fst (convert_html_to_pdf world_ok ''page.html'' None None None 60)))
      \<and> trace_header
          \<lparr>req_url = ''http://localhost:3000/forms/chromium/convert/html'',
           req_files = [(''files'', ''index.html'', FileHandle ''page.html'')],
           req_headers = [], req_timeout = 60\<rparr> = None)"
proof -
  let ?req1 = "\<lparr>req_url = ''http://localhost:3000/forms/libreoffice/convert'',
                 req_files = [(''files'', ''report.docx'', BytesIO [80, 75])],
                 req_headers = [(''Gotenberg-Trace'', ''req-42'')], req_timeout = 120\<rparr>"
  let ?req2 = "\<lparr>req_url = ''http://localhost:3000/forms/chromium/convert/html'',
                 req_files = [(''files'', ''index.html'', FileHandle ''page.html'')],
                 req_headers = [], req_timeout = 60\<rparr>"
  have p1: "?req1 \<in> set (posts (fst (convert_office_to_pdf world_ok ''docs/report.docx''
              (Some [80, 75]) None (Some ''req-42'') 120)))"
    by (simp add: office_posts office_request_def part_in_hand_def truthy_def
          get_gotenberg_url_def basename_def world_ok_def)
  have p2: "?req2 \<in> set (posts (fst (convert_html_to_pdf world_ok ''page.html''
              None None None 60)))"
    by (simp add: html_posts html_request_def part_in_hand_def truthy_def
          get_gotenberg_url_def world_ok_def)
  have t1: "truthy (Some ''req-42'') = Some ''req-42''" and t2: "truthy (None :: string option) = None"
    by (simp_all add: truthy_def)
  from trace_header_follows_truthy_trace_id [OF disjI1 [OF refl] p1]
  have c1: "trace_header ?req1 = Some ''req-42''" by (simp only: t1)
  from trace_header_follows_truthy_trace_id [OF disjI2 [OF refl] p2]
  have c2: "trace_header ?req2 = None" by (simp only: t2)
  from p1 c1 p2 c2 show ?thesis by blast
qed

text \<open>
  C6. For every run of \<open>convert_html_to_pdf\<close>, the multipart part of the request is
  the field \<open>files\<close> with the fixed name \<open>index.html\<close>, whatever the input filename
  is and whether the content comes from \<open>binary\<close> or from the file on disk.
\<close>

theorem html_part_is_named_index_html:
  assumes "req \<in> set (posts (fst (convert_html_to_pdf w filename binary callback trace_id timeout)))"
  shows "map (\<lambda>(field, name, fileobj). (field, name)) (req_files req) =
           [(''files'', ''index.html'')]"
  using assms by (auto simp: html_posts html_request_def split: if_splits)

theorem html_part_is_named_index_html_witness:
  "(\<lparr>req_url = ''http://localhost:3000/forms/chromium/convert/html'',
      req_files = [(''files'', ''index.html'', BytesIO [60, 112, 62])],
      req_headers = [], req_timeout = 120\<rparr>
      \<in> set (posts (fst (convert_html_to_pdf world_ok ''site/about.htm''
                           (Some [60, 112, 62]) None None 120)))
    \<and> map (\<lambda>(field, name, fileobj). (field, name))
          [(''files'', ''index.html'', BytesIO [60, 112, 62])] = [(''files'', ''index.html'')])
   \<and> (\<lparr>req_url = ''http://localhost:3000/forms/chromium/convert/html'',
        req_files = [(''files'', ''index.html'', FileHandle ''site/about.htm'')],
        req_headers = [], req_timeout = 120\<rparr>
        \<in> set (posts (fst (convert_html_to_pdf world_ok ''site/about.htm'' None None None 120)))
      \<and> map (\<lambda>(field, name, fileobj). (field, name))
            [(''files'', ''index.html'', FileHandle ''site/about.htm'')] =
          [(''files'', ''index.html'')])"
proof -
  let ?req1 = "\<lparr>req_url = ''http://localhost:3000/forms/chromium/convert/html'',
                 req_files = [(''files'', ''index.html'', BytesIO [60, 112, 62])],
                 req_headers = [], req_timeout = 120\<rparr>"
  let ?req2 = "\<lparr>req_url = ''http://localhost:3000/forms/chromium/convert/html'',
                 req_files = [(''files'', ''index.html'', FileHandle ''site/about.htm'')],
                 req_headers = [], req_timeout = 120\<rparr>"
  have p1: "?req1 \<in> set (posts (fst (convert_html_to_pdf world_ok ''site/about.htm''
              (Some [60, 112, 62]) None None 120)))"
    by (simp add: html_posts html_request_def part_in_hand_def truthy_def
          get_gotenberg_url_def world_ok_def)
  have p2: "?req2 \<in> set (posts (fst (convert_html_to_pdf world_ok ''site/about.htm''
              None None None 120)))"
    by (simp add: html_posts html_request_def part_in_hand_def truthy_def
          get_gotenberg_url_def world_ok_def)
  from html_part_is_named_index_html [OF p1]
  have c1: "map (\<lambda>(field, name, fileobj). (field, name))
      [(''files'', ''index.html'', BytesIO [60, 112, 62])] = [(''files'', ''index.html'')]"
    by (simp only: request.simps)
  from html_part_is_named_index_html [OF p2]
  have c2: "map (\<lambda>(field, name, fileobj). (field, name))
      [(''files'', ''index.html'', FileHandle ''site/about.htm'')] = [(''files'', ''index.html'')]"
    by (simp only: request.simps)
  from p1 c1 p2 c2 show ?thesis by blast
qed

text \<open>
  C8. The base URL is the entry \<open>url\<close> of what the configuration lookup of the key
  \<open>gotenberg\<close> gives, and \<open>http://localhost:3000\<close> when the lookup gives nothing or
  a dictionary without \<open>url\<close>; \<open>convert_office_to_pdf\<close> posts to
  \<open>{base_url}/forms/libreoffice/convert\<close> and \<open>convert_html_to_pdf\<close> to
  \<open>{base_url}/forms/chromium/convert/html\<close>.
\<close>

theorem base_url_and_routes:
  "get_gotenberg_url w =
     (case get_base_config w ''gotenberg'' (Some []) of
        None \<Rightarrow> ''http://localhost:3000''
      | Some d \<Rightarrow> (case map_of d ''url'' of
                    None \<Rightarrow> ''http://localhost:3000''
                  | Some u \<Rightarrow> u))
   \<and> (\<forall>req \<in> set (posts (fst (convert_office_to_pdf w filename binary callback trace_id timeout))).
         req_url req = get_gotenberg_url w @ ''/forms/libreoffice/convert'')
   \<and> (\<forall>req \<in> set (posts (fst (convert_html_to_pdf w filename binary callback trace_id timeout))).
         req_url req = get_gotenberg_url w @ ''/forms/chromium/convert/html'')"
proof (intro conjI)
  show "get_gotenberg_url w =
     (case get_base_config w ''gotenberg'' (Some []) of
        None \<Rightarrow> ''http://localhost:3000''
      | Some d \<Rightarrow> (case map_of d ''url'' of
                    None \<Rightarrow> ''http://localhost:3000''
                  | Some u \<Rightarrow> u))"
    by (simp add: get_gotenberg_url_def split: option.split)
  show "\<forall>req \<in> set (posts (fst (convert_office_to_pdf w filename binary callback trace_id timeout))).
         req_url req = get_gotenberg_url w @ ''/forms/libreoffice/convert''"
    by (simp add: office_posts office_request_def)
  show "\<forall>req \<in> set (posts (fst (convert_html_to_pdf w filename binary callback trace_id timeout))).
         req_url req = get_gotenberg_url w @ ''/forms/chromium/convert/html''"
    by (simp add: html_posts html_request_def)
qed

theorem base_url_and_routes_witness:
  "get_gotenberg_url world_ok = ''http://localhost:3000''
   \<and> get_gotenberg_url world_timeout = ''http://localhost:3000''
   \<and> get_gotenberg_url world_bad_request = ''http://gotenberg:3000''
   \<and> (\<lparr>req_url = ''http://gotenberg:3000/forms/libreoffice/convert'',
        req_files = [(''files'', ''report.docx'', BytesIO [80, 75])],
        req_headers = [], req_timeout = 120\<rparr>
        \<in> set (posts (fst (convert_office_to_pdf world_bad_request ''docs/report.docx''
                             (Some [80, 75]) None None 120))))
   \<and> (\<lparr>req_url = ''http://localhost:3000/forms/chromium/convert/html'',
        req_files = [(''files'', ''index.html'', BytesIO [60, 112, 62])],
        req_headers = [], req_timeout = 120\<rparr>
        \<in> set (posts (fst (convert_html_to_pdf world_ok ''page.html''
                             (Some [60, 112, 62]) None None 120))))"
proof -
  let ?req1 = "\<lparr>req_url = ''http://gotenberg:3000/forms/libreoffice/convert'',
                 req_files = [(''files'', ''report.docx'', BytesIO [80, 75])],
                 req_headers = [], req_timeout = 120\<rparr>"
  let ?req2 = "\<lparr>req_url = ''http://localhost:3000/forms/chromium/convert/html'',
                 req_files = [(''files'', ''index.html'', BytesIO [60, 112, 62])],
                 req_headers = [], req_timeout = 120\<rparr>"
  have u1: "get_gotenberg_url world_ok = ''http://localhost:3000''"
    using base_url_and_routes [of world_ok] by (simp add: world_ok_def)
  have u2: "get_gotenberg_url world_timeout = ''http://localhost:3000''"
    using base_url_and_routes [of world_timeout] by (simp add: world_timeout_def)
  have u3: "get_gotenberg_url world_bad_request = ''http://gotenberg:3000''"
    using base_url_and_routes [of world_bad_request] by (simp add: world_bad_request_def)
  have p1: "?req1 \<in> set (posts (fst (convert_office_to_pdf world_bad_request ''docs/report.docx''
              (Some [80, 75]) None None 120)))"
    by (simp add: office_posts office_request_def part_in_hand_def truthy_def u3 basename_def)
  have p2: "?req2 \<in> set (posts (fst (convert_html_to_pdf world_ok ''page.html''
              (Some [60, 112, 62]) None None 120)))"
    by (simp add: html_posts html_request_def part_in_hand_def truthy_def u1)
  from u1 u2 u3 p1 p2 show ?thesis by blast
qed

subsection \<open>Progress values\<close>

text \<open>
  C9. In every run of either converter, every call of the progress callback passes one
  of three progress values: \<open>0.15\<close> (at the start), \<open>0.2\<close> (on success) or \<open>-1\<close>
  (on failure); no other value is ever passed, and without a callback nothing is passed.
  The first value is \<open>0.15\<close>; a run that returns has passed \<open>0.15\<close> and \<open>0.2\<close>;
  and with a callback that never raises, the values are \<open>0.15\<close>, then \<open>0.2\<close> when
  the run returns or \<open>-1\<close> when it raises.
\<close>

theorem callback_progress_values:
  assumes "convert = convert_office_to_pdf \<or> convert = convert_html_to_pdf"
  shows "set (map fst (callbacks (fst (convert w filename binary callback trace_id timeout))))
           \<subseteq> {15 / 100, 2 / 10, - 1}
         \<and> (case callback of
               None \<Rightarrow>
                 map fst (callbacks (fst (convert w filename binary callback trace_id timeout))) = []
             | Some cb \<Rightarrow>
                 take 1 (map fst (callbacks (fst (convert w filename binary callback
                                                    trace_id timeout)))) = [15 / 100]
                 \<and> (\<forall>v. snd (convert w filename binary callback trace_id timeout) = Inr v \<longrightarrow>
                        map fst (callbacks (fst (convert w filename binary callback
                                                   trace_id timeout))) = [15 / 100, 2 / 10])
                 \<and> ((\<forall>progress message. cb progress message = None) \<longrightarrow>
                        map fst (callbacks (fst (convert w filename binary callback
                                                   trace_id timeout))) =
                          [15 / 100,
                           case snd (convert w filename binary callback trace_id timeout) of
                             Inr v \<Rightarrow> 2 / 10
                           | Inl e \<Rightarrow> - 1]))"
proof -
  from assms show ?thesis
  proof
    assume c: "convert = convert_office_to_pdf"
    from office_scenarios [of callback w filename binary trace_id timeout] show ?thesis
      unfolding c
      by (cases "snd (convert_office_to_pdf w filename binary callback trace_id timeout)")
        (auto, (intro exI, assumption)+)
  next
    assume c: "convert = convert_html_to_pdf"
    from html_scenarios [of callback w filename binary trace_id timeout] show ?thesis
      unfolding c
      by (cases "snd (convert_html_to_pdf w filename binary callback trace_id timeout)")
        (auto, (intro exI, assumption)+)
  qed
qed

theorem callback_progress_values_witness:
  "map fst (callbacks (fst (convert_office_to_pdf world_ok ''docs/report.docx'' None
                              (Some quiet_callback) None 120))) = [15 / 100, 2 / 10]
   \<and> map fst (callbacks (fst (convert_html_to_pdf world_timeout ''page.html'' None
                                (Some quiet_callback) None 120))) = [15 / 100, - 1]
   \<and> map fst (callbacks (fst (convert_html_to_pdf world_timeout ''page.html'' None
                                None None 120))) = []
   \<and> set (map fst (callbacks (fst (convert_office_to_pdf world_ok ''docs/report.docx'' None
                                     (Some raising_on_success) None 120))))
       \<subseteq> {15 / 100, 2 / 10, - 1}"
proof -
  have q: "\<forall>progress message. quiet_callback progress message = None"
    by (simp add: quiet_callback_def)
  have r1: "snd (convert_office_to_pdf world_ok ''docs/report.docx'' None
              (Some quiet_callback) None 120) = Inr ([37, 80, 68, 70], ''docs/report.pdf'')"
    by code_simp
  have r2: "snd (convert_html_to_pdf world_timeout ''page.html'' None
              (Some quiet_callback) None 120) =
            Inl (Raise Exception
                   ''Failed to convert HTML document to PDF (network error): read timed out'')"
    by code_simp
  from callback_progress_values [OF disjI1 [OF refl], of world_ok "''docs/report.docx''" None
      "Some quiet_callback" None 120] q r1
  have c1: "map fst (callbacks (fst (convert_office_to_pdf world_ok ''docs/report.docx'' None
                              (Some quiet_callback) None 120))) = [15 / 100, 2 / 10]"
    by simp
  from callback_progress_values [OF disjI2 [OF refl], of world_timeout "''page.html''" None
      "Some quiet_callback" None 120] q r2
  have c2: "map fst (callbacks (fst (convert_html_to_pdf world_timeout ''page.html'' None
                                (Some quiet_callback) None 120))) = [15 / 100, - 1]"
    by simp
  from callback_progress_values [OF disjI2 [OF refl], of world_timeout "''page.html''" None
      None None 120]
  have c3: "map fst (callbacks (fst (convert_html_to_pdf world_timeout ''page.html'' None
                                None None 120))) = []"
    by simp
  from callback_progress_values [OF disjI1 [OF refl], of world_ok "''docs/report.docx''" None
      "Some raising_on_success" None 120]
  have c4: "set (map fst (callbacks (fst (convert_office_to_pdf world_ok ''docs/report.docx'' None
                                     (Some raising_on_success) None 120))))
       \<subseteq> {15 / 100, 2 / 10, - 1}"
    by (rule conjunct1)
  from c1 c2 c3 c4 show ?thesis by (intro conjI)
qed

subsection \<open>Failures\<close>







end
